theory Spec2Isabelle
  imports Complex_Main "HOL-Library.Multiset"
begin

section \<open>Python operations used by the library\<close>

text \<open>
  The library computes with Python floats. In the first model of each method they are
  the type \<^typ>\<open>real\<close>: every arithmetic operation is the exact one, so rounding,
  overflow, infinities and NaN are outside that model. What Python raises on finite
  numbers is kept: a division by zero, a square root of a negative number, an arc sine
  outside \<open>[-1, 1]\<close>, a missing dictionary key and an unhashable dictionary key are
  values of \<open>py_error\<close>, and a function that can reach one of them returns
  \<open>py_error + 'a\<close>. A division by a non-zero literal is written \<open>/\<close>.

  Where a property turns on rounding, the method has a second model, named with the
  suffix \<open>_f64\<close>, over the binary64 numbers of the section on binary64 arithmetic,
  with every operation rounded.

  A Python \<open>str\<close> is modelled by \<^typ>\<open>string\<close>, holding its UTF-8 encoding;
  the case mappings \<open>upper\<close> and \<open>lower\<close> are those of \<open>str.upper\<close> and
  \<open>str.lower\<close> on strings of ASCII characters. They leave every other byte unchanged,
  which is not what Python does on letters outside ASCII.
\<close>

datatype py_error = ValueError | ZeroDivisionError | KeyError | TypeError

fun py_bind :: "py_error + 'a \<Rightarrow> ('a \<Rightarrow> py_error + 'b) \<Rightarrow> py_error + 'b" where
  "py_bind (Inl e) f = Inl e"
| "py_bind (Inr x) f = f x"

definition py_div :: "real \<Rightarrow> real \<Rightarrow> py_error + real" where
  "py_div x y = (if y = 0 then Inl ZeroDivisionError else Inr (x / y))"

definition math_sqrt :: "real \<Rightarrow> py_error + real" where
  "math_sqrt x = (if x < 0 then Inl ValueError else Inr (sqrt x))"

definition math_asin :: "real \<Rightarrow> py_error + real" where
  "math_asin x = (if x < - 1 \<or> 1 < x then Inl ValueError else Inr (arcsin x))"

definition radians :: "real \<Rightarrow> real" where
  "radians x = x * (pi / 180)"

definition getitem :: "('k \<rightharpoonup> 'v) \<Rightarrow> 'k \<Rightarrow> py_error + 'v" where
  "getitem d k = (case d k of None \<Rightarrow> Inl KeyError | Some v \<Rightarrow> Inr v)"

definition dict_get :: "('k \<rightharpoonup> 'v) \<Rightarrow> 'k \<Rightarrow> 'v \<Rightarrow> 'v" where
  "dict_get d k dflt = (case d k of None \<Rightarrow> dflt | Some v \<Rightarrow> v)"

definition upper_char :: "char \<Rightarrow> char" where
  "upper_char c =
     (case map_of (zip ''abcdefghijklmnopqrstuvwxyz'' ''ABCDEFGHIJKLMNOPQRSTUVWXYZ'') c of
        None \<Rightarrow> c | Some u \<Rightarrow> u)"

definition lower_char :: "char \<Rightarrow> char" where
  "lower_char c =
     (case map_of (zip ''ABCDEFGHIJKLMNOPQRSTUVWXYZ'' ''abcdefghijklmnopqrstuvwxyz'') c of
        None \<Rightarrow> c | Some l \<Rightarrow> l)"

definition upper :: "string \<Rightarrow> string" where
  "upper s = map upper_char s"

definition lower :: "string \<Rightarrow> string" where
  "lower s = map lower_char s"


section \<open>Binary64 arithmetic\<close>

text \<open>
  A Python float is an IEEE 754 binary64 number: a finite number, an infinity or a NaN.
  The sign of a zero is not modelled: the methods modelled here only multiply, divide
  and compare, a division by either zero raises, and the two zeros compare equal.
  A finite operand can be any real number here; the binary64 numbers are among them.
\<close>

datatype float64 = Finite real | PosInf | NegInf | NaN

text \<open>Rounding to the nearest integer, a tie going to the even one.\<close>

definition round_half_even :: "real \<Rightarrow> int" where
  "round_half_even r =
     (let f = \<lfloor>r\<rfloor>; d = r - of_int f
      in if d < 1 / 2 then f else if 1 / 2 < d then f + 1 else if even f then f else f + 1)"

text \<open>
  Rounding a real number to binary64, to nearest, ties to even: 53 significant bits at the
  exponent of the number, the exponent not below -1022 (below it the numbers are
  subnormal, multiples of 2 to the power -1074), and an infinity when the rounded
  magnitude reaches 2 to the power 1024.
\<close>

definition round64 :: "real \<Rightarrow> float64" where
  "round64 x =
     (if x = 0 then Finite 0
      else (let e = max \<lfloor>log 2 \<bar>x\<bar>\<rfloor> (- 1022);
                q = 2 powi (e - 52);
                y = q * of_int (round_half_even (x / q))
            in if 2 ^ 1024 \<le> \<bar>y\<bar> then (if x < 0 then NegInf else PosInf) else Finite y))"

definition f64_negative :: "float64 \<Rightarrow> bool" where
  "f64_negative a = (case a of Finite x \<Rightarrow> x < 0 | NegInf \<Rightarrow> True | _ \<Rightarrow> False)"

text \<open>\<open>a * b\<close>: an infinity times a zero, and any product with a NaN, is a NaN.\<close>

definition f64_mul :: "float64 \<Rightarrow> float64 \<Rightarrow> float64" where
  "f64_mul a b =
     (case (a, b) of
        (Finite x, Finite y) \<Rightarrow> round64 (x * y)
      | _ \<Rightarrow>
          if a = NaN \<or> b = NaN \<or> a = Finite 0 \<or> b = Finite 0 then NaN
          else if f64_negative a = f64_negative b then PosInf else NegInf)"

text \<open>
  \<open>a / b\<close>: Python raises \<open>ZeroDivisionError\<close> when the divisor is a zero, whatever the
  dividend; a finite number over an infinity is a zero, an infinity over an infinity a NaN.
\<close>

definition f64_div :: "float64 \<Rightarrow> float64 \<Rightarrow> py_error + float64" where
  "f64_div a b =
     (if b = Finite 0 then Inl ZeroDivisionError
      else if a = NaN \<or> b = NaN then Inr NaN
      else (case (a, b) of
              (Finite x, Finite y) \<Rightarrow> Inr (round64 (x / y))
            | (Finite x, _) \<Rightarrow> Inr (Finite 0)
            | (_, Finite y) \<Rightarrow>
                Inr (if f64_negative a = f64_negative b then PosInf else NegInf)
            | _ \<Rightarrow> Inr NaN))"


definition f64_lt :: "float64 \<Rightarrow> float64 \<Rightarrow> bool" where
  "f64_lt a b =
     (case (a, b) of
        (NaN, _) \<Rightarrow> False
      | (_, NaN) \<Rightarrow> False
      | (Finite x, Finite y) \<Rightarrow> x < y
      | (NegInf, NegInf) \<Rightarrow> False
      | (PosInf, PosInf) \<Rightarrow> False
      | (NegInf, _) \<Rightarrow> True
      | (_, PosInf) \<Rightarrow> True
      | _ \<Rightarrow> False)"

section \<open>flight\_calculator.py\<close>

definition earth_radius :: real where
  "earth_radius = 6371"

definition gravity :: real where
  "gravity = 9.81"

text \<open>\<open>wind_factor\<close> has the default 1.0, which a caller that omits it passes as \<open>1\<close>.\<close>

definition calculate_flight_time :: "real \<Rightarrow> real \<Rightarrow> real \<Rightarrow> py_error + real" where
  "calculate_flight_time distance speed wind_factor =
     (if speed \<le> 0 then Inl ValueError
      else (let effective_speed = speed * wind_factor
            in py_div distance effective_speed))"


definition calculate_distance :: "real \<Rightarrow> real \<Rightarrow> real \<Rightarrow> real \<Rightarrow> py_error + real" where
  "calculate_distance lat1 lon1 lat2 lon2 =
     (let lat1_rad = radians lat1;
          lon1_rad = radians lon1;
          lat2_rad = radians lat2;
          lon2_rad = radians lon2;
          dlat = lat2_rad - lat1_rad;
          dlon = lon2_rad - lon1_rad;
          a = (sin (dlat / 2))\<^sup>2 + cos lat1_rad * cos lat2_rad * (sin (dlon / 2))\<^sup>2
      in py_bind (math_sqrt a) (\<lambda>r.
         py_bind (math_asin r) (\<lambda>s.
           (let c = 2 * s in Inr (earth_radius * c)))))"

text \<open>
  The number that \<open>calculate_distance\<close> computes when neither \<open>math.sqrt\<close> nor
  \<open>math.asin\<close> raises: its expression with the local variables substituted.
\<close>

definition haversine :: "real \<Rightarrow> real \<Rightarrow> real \<Rightarrow> real \<Rightarrow> real" where
  "haversine lat1 lon1 lat2 lon2 =
     6371 * (2 * arcsin (sqrt
       ((sin ((radians lat2 - radians lat1) / 2))\<^sup>2 +
        cos (radians lat1) * cos (radians lat2) *
        (sin ((radians lon2 - radians lon1) / 2))\<^sup>2)))"




section \<open>weather\_analyzer.py\<close>

datatype WeatherCondition = EXCELLENT | GOOD | FAIR | POOR | DANGEROUS

fun WeatherCondition_value :: "WeatherCondition \<Rightarrow> string" where
  "WeatherCondition_value EXCELLENT = ''excellent''"
| "WeatherCondition_value GOOD = ''good''"
| "WeatherCondition_value FAIR = ''fair''"
| "WeatherCondition_value POOR = ''poor''"
| "WeatherCondition_value DANGEROUS = ''dangerous''"

text \<open>
  The two threshold tables are dictionary literals with the same five keys, read only at
  literal keys: a record with one field per key.
\<close>

record thresholds =
  th_excellent :: real
  th_good :: real
  th_fair :: real
  th_poor :: real
  th_dangerous :: real

definition visibility_thresholds :: thresholds where
  "visibility_thresholds =
     \<lparr>th_excellent = 10000, th_good = 5000, th_fair = 2000, th_poor = 1000, th_dangerous = 500\<rparr>"

definition wind_thresholds :: thresholds where
  "wind_thresholds =
     \<lparr>th_excellent = 10, th_good = 15, th_fair = 20, th_poor = 25, th_dangerous = 30\<rparr>"

definition msg_strong_wind :: string where
  \<comment> \<open>UTF-8 of the Russian advisory: caution, strong wind\<close>
  "msg_strong_wind =
     [CHR 0xD0, CHR 0x9E, CHR 0xD1, CHR 0x81, CHR 0xD1, CHR 0x82, CHR 0xD0, CHR 0xBE, CHR 0xD1,
      CHR 0x80, CHR 0xD0, CHR 0xBE, CHR 0xD0, CHR 0xB6, CHR 0xD0, CHR 0xBD, CHR 0xD0,
      CHR 0xBE, CHR 0x3A, CHR 0x20, CHR 0xD1, CHR 0x81, CHR 0xD0, CHR 0xB8, CHR 0xD0,
      CHR 0xBB, CHR 0xD1, CHR 0x8C, CHR 0xD0, CHR 0xBD, CHR 0xD1, CHR 0x8B, CHR 0xD0,
      CHR 0xB9, CHR 0x20, CHR 0xD0, CHR 0xB2, CHR 0xD0, CHR 0xB5, CHR 0xD1, CHR 0x82,
      CHR 0xD0, CHR 0xB5, CHR 0xD1, CHR 0x80]"

definition msg_low_pressure :: string where
  \<comment> \<open>UTF-8 of the Russian advisory: attention, low pressure\<close>
  "msg_low_pressure =
     [CHR 0xD0, CHR 0x92, CHR 0xD0, CHR 0xBD, CHR 0xD0, CHR 0xB8, CHR 0xD0, CHR 0xBC, CHR 0xD0,
      CHR 0xB0, CHR 0xD0, CHR 0xBD, CHR 0xD0, CHR 0xB8, CHR 0xD0, CHR 0xB5, CHR 0x3A,
      CHR 0x20, CHR 0xD0, CHR 0xBD, CHR 0xD0, CHR 0xB8, CHR 0xD0, CHR 0xB7, CHR 0xD0,
      CHR 0xBA, CHR 0xD0, CHR 0xBE, CHR 0xD0, CHR 0xB5, CHR 0x20, CHR 0xD0, CHR 0xB4,
      CHR 0xD0, CHR 0xB0, CHR 0xD0, CHR 0xB2, CHR 0xD0, CHR 0xBB, CHR 0xD0, CHR 0xB5,
      CHR 0xD0, CHR 0xBD, CHR 0xD0, CHR 0xB8, CHR 0xD0, CHR 0xB5]"

definition msg_high_pressure :: string where
  \<comment> \<open>UTF-8 of the Russian advisory: attention, high pressure\<close>
  "msg_high_pressure =
     [CHR 0xD0, CHR 0x92, CHR 0xD0, CHR 0xBD, CHR 0xD0, CHR 0xB8, CHR 0xD0, CHR 0xBC, CHR 0xD0,
      CHR 0xB0, CHR 0xD0, CHR 0xBD, CHR 0xD0, CHR 0xB8, CHR 0xD0, CHR 0xB5, CHR 0x3A,
      CHR 0x20, CHR 0xD0, CHR 0xB2, CHR 0xD1, CHR 0x8B, CHR 0xD1, CHR 0x81, CHR 0xD0,
      CHR 0xBE, CHR 0xD0, CHR 0xBA, CHR 0xD0, CHR 0xBE, CHR 0xD0, CHR 0xB5, CHR 0x20,
      CHR 0xD0, CHR 0xB4, CHR 0xD0, CHR 0xB0, CHR 0xD0, CHR 0xB2, CHR 0xD0, CHR 0xBB,
      CHR 0xD0, CHR 0xB5, CHR 0xD0, CHR 0xBD, CHR 0xD0, CHR 0xB8, CHR 0xD0, CHR 0xB5]"

definition msg_limited_visibility :: string where
  \<comment> \<open>UTF-8 of the Russian advisory: limited visibility\<close>
  "msg_limited_visibility =
     [CHR 0xD0, CHR 0x9E, CHR 0xD0, CHR 0xB3, CHR 0xD1, CHR 0x80, CHR 0xD0, CHR 0xB0, CHR 0xD0,
      CHR 0xBD, CHR 0xD0, CHR 0xB8, CHR 0xD1, CHR 0x87, CHR 0xD0, CHR 0xB5, CHR 0xD0,
      CHR 0xBD, CHR 0xD0, CHR 0xBD, CHR 0xD0, CHR 0xB0, CHR 0xD1, CHR 0x8F, CHR 0x20,
      CHR 0xD0, CHR 0xB2, CHR 0xD0, CHR 0xB8, CHR 0xD0, CHR 0xB4, CHR 0xD0, CHR 0xB8,
      CHR 0xD0, CHR 0xBC, CHR 0xD0, CHR 0xBE, CHR 0xD1, CHR 0x81, CHR 0xD1, CHR 0x82,
      CHR 0xD1, CHR 0x8C]"

definition msg_extreme_cold :: string where
  \<comment> \<open>UTF-8 of the Russian advisory: extremely low temperature\<close>
  "msg_extreme_cold =
     [CHR 0xD0, CHR 0xAD, CHR 0xD0, CHR 0xBA, CHR 0xD1, CHR 0x81, CHR 0xD1, CHR 0x82, CHR 0xD1,
      CHR 0x80, CHR 0xD0, CHR 0xB5, CHR 0xD0, CHR 0xBC, CHR 0xD0, CHR 0xB0, CHR 0xD0,
      CHR 0xBB, CHR 0xD1, CHR 0x8C, CHR 0xD0, CHR 0xBD, CHR 0xD0, CHR 0xBE, CHR 0x20,
      CHR 0xD0, CHR 0xBD, CHR 0xD0, CHR 0xB8, CHR 0xD0, CHR 0xB7, CHR 0xD0, CHR 0xBA,
      CHR 0xD0, CHR 0xB0, CHR 0xD1, CHR 0x8F, CHR 0x20, CHR 0xD1, CHR 0x82, CHR 0xD0,
      CHR 0xB5, CHR 0xD0, CHR 0xBC, CHR 0xD0, CHR 0xBF, CHR 0xD0, CHR 0xB5, CHR 0xD1,
      CHR 0x80, CHR 0xD0, CHR 0xB0, CHR 0xD1, CHR 0x82, CHR 0xD1, CHR 0x83, CHR 0xD1,
      CHR 0x80, CHR 0xD0, CHR 0xB0]"

definition msg_extreme_heat :: string where
  \<comment> \<open>UTF-8 of the Russian advisory: extremely high temperature\<close>
  "msg_extreme_heat =
     [CHR 0xD0, CHR 0xAD, CHR 0xD0, CHR 0xBA, CHR 0xD1, CHR 0x81, CHR 0xD1, CHR 0x82, CHR 0xD1,
      CHR 0x80, CHR 0xD0, CHR 0xB5, CHR 0xD0, CHR 0xBC, CHR 0xD0, CHR 0xB0, CHR 0xD0,
      CHR 0xBB, CHR 0xD1, CHR 0x8C, CHR 0xD0, CHR 0xBD, CHR 0xD0, CHR 0xBE, CHR 0x20,
      CHR 0xD0, CHR 0xB2, CHR 0xD1, CHR 0x8B, CHR 0xD1, CHR 0x81, CHR 0xD0, CHR 0xBE,
      CHR 0xD0, CHR 0xBA, CHR 0xD0, CHR 0xB0, CHR 0xD1, CHR 0x8F, CHR 0x20, CHR 0xD1,
      CHR 0x82, CHR 0xD0, CHR 0xB5, CHR 0xD0, CHR 0xBC, CHR 0xD0, CHR 0xBF, CHR 0xD0,
      CHR 0xB5, CHR 0xD1, CHR 0x80, CHR 0xD0, CHR 0xB0, CHR 0xD1, CHR 0x82, CHR 0xD1,
      CHR 0x83, CHR 0xD1, CHR 0x80, CHR 0xD0, CHR 0xB0]"

definition msg_favorable :: string where
  \<comment> \<open>UTF-8 of the Russian message: conditions are favourable for flight\<close>
  "msg_favorable =
     [CHR 0xD0, CHR 0xA3, CHR 0xD1, CHR 0x81, CHR 0xD0, CHR 0xBB, CHR 0xD0, CHR 0xBE, CHR 0xD0,
      CHR 0xB2, CHR 0xD0, CHR 0xB8, CHR 0xD1, CHR 0x8F, CHR 0x20, CHR 0xD0, CHR 0xB1,
      CHR 0xD0, CHR 0xBB, CHR 0xD0, CHR 0xB0, CHR 0xD0, CHR 0xB3, CHR 0xD0, CHR 0xBE,
      CHR 0xD0, CHR 0xBF, CHR 0xD1, CHR 0x80, CHR 0xD0, CHR 0xB8, CHR 0xD1, CHR 0x8F,
      CHR 0xD1, CHR 0x82, CHR 0xD0, CHR 0xBD, CHR 0xD1, CHR 0x8B, CHR 0x20, CHR 0xD0,
      CHR 0xB4, CHR 0xD0, CHR 0xBB, CHR 0xD1, CHR 0x8F, CHR 0x20, CHR 0xD0, CHR 0xBF,
      CHR 0xD0, CHR 0xBE, CHR 0xD0, CHR 0xBB, CHR 0xD0, CHR 0xB5, CHR 0xD1, CHR 0x82,
      CHR 0xD0, CHR 0xB0]"







text \<open>
  \<open>_get_overall_condition\<close> (an Isabelle name cannot start with an underscore): an
  ordered chain of checks, each returning at once. \<open>visibility\<close> is optional.
\<close>

definition get_overall_condition :: "real \<Rightarrow> real \<Rightarrow> real \<Rightarrow> real option \<Rightarrow> string" where
  "get_overall_condition temperature pressure wind_speed visibility =
     (if visibility \<noteq> None \<and> the visibility < th_dangerous visibility_thresholds
        then WeatherCondition_value DANGEROUS
      else if visibility \<noteq> None \<and> the visibility < th_poor visibility_thresholds
        then WeatherCondition_value POOR
      else if wind_speed > th_dangerous wind_thresholds
        then WeatherCondition_value DANGEROUS
      else if wind_speed > th_poor wind_thresholds
        then WeatherCondition_value POOR
      else (let pressure_deviation = \<bar>pressure - 1013\<bar> in
        if pressure_deviation > 50
          then WeatherCondition_value POOR
        else if temperature < - 40 \<or> temperature > 50
          then WeatherCondition_value POOR
        else if wind_speed < th_excellent wind_thresholds \<and> pressure_deviation < 20 \<and>
                (visibility = None \<or> the visibility > th_excellent visibility_thresholds)
          then WeatherCondition_value EXCELLENT
        else if wind_speed < th_good wind_thresholds \<and> pressure_deviation < 30
          then WeatherCondition_value GOOD
        else WeatherCondition_value FAIR))"

text \<open>\<open>_get_recommendations\<close>: the list grows by \<open>append\<close>, in this order.\<close>

definition get_recommendations :: "real \<Rightarrow> real \<Rightarrow> real \<Rightarrow> real option \<Rightarrow> string list" where
  "get_recommendations temperature pressure wind_speed visibility =
     (let recommendations = [];
          recommendations =
            (if wind_speed > th_fair wind_thresholds
             then recommendations @ [msg_strong_wind] else recommendations);
          recommendations =
            (if pressure < 1000 then recommendations @ [msg_low_pressure]
             else if pressure > 1030 then recommendations @ [msg_high_pressure]
             else recommendations);
          recommendations =
            (if visibility \<noteq> None \<and> the visibility < th_good visibility_thresholds
             then recommendations @ [msg_limited_visibility] else recommendations);
          recommendations =
            (if temperature < - 20 then recommendations @ [msg_extreme_cold]
             else if temperature > 40 then recommendations @ [msg_extreme_heat]
             else recommendations);
          recommendations =
            (if recommendations = [] then recommendations @ [msg_favorable]
             else recommendations)
      in recommendations)"

text \<open>The dictionary that \<open>analyze_conditions\<close> returns has these six keys.\<close>

record conditions =
  cond_temperature :: real
  cond_pressure :: real
  cond_wind_speed :: real
  cond_visibility :: "real option"
  cond_overall_condition :: string
  cond_recommendations :: "string list"

definition analyze_conditions :: "real \<Rightarrow> real \<Rightarrow> real \<Rightarrow> real option \<Rightarrow> conditions" where
  "analyze_conditions temperature pressure wind_speed visibility =
     \<lparr>cond_temperature = temperature,
      cond_pressure = pressure,
      cond_wind_speed = wind_speed,
      cond_visibility = visibility,
      cond_overall_condition =
        get_overall_condition temperature pressure wind_speed visibility,
      cond_recommendations =
        get_recommendations temperature pressure wind_speed visibility\<rparr>"







section \<open>airport\_manager.py\<close>

record Airport =
  icao_code :: string
  name :: string
  city :: string
  country :: string
  latitude :: real
  longitude :: real
  elevation :: real

text \<open>\<open>to_dict\<close> copies the seven attributes into a dictionary with the same seven keys.\<close>

definition to_dict :: "Airport \<Rightarrow> Airport" where
  "to_dict self =
     \<lparr>icao_code = icao_code self, name = name self, city = city self,
      country = country self, latitude = latitude self, longitude = longitude self,
      elevation = elevation self\<rparr>"

definition str_Sheremetyevo :: string where
  \<comment> \<open>UTF-8 of the Russian display string for Sheremetyevo\<close>
  "str_Sheremetyevo =
     [CHR 0xD0, CHR 0xA8, CHR 0xD0, CHR 0xB5, CHR 0xD1, CHR 0x80, CHR 0xD0, CHR 0xB5, CHR 0xD0,
      CHR 0xBC, CHR 0xD0, CHR 0xB5, CHR 0xD1, CHR 0x82, CHR 0xD1, CHR 0x8C, CHR 0xD0,
      CHR 0xB5, CHR 0xD0, CHR 0xB2, CHR 0xD0, CHR 0xBE]"

definition str_Domodedovo :: string where
  \<comment> \<open>UTF-8 of the Russian display string for Domodedovo\<close>
  "str_Domodedovo =
     [CHR 0xD0, CHR 0x94, CHR 0xD0, CHR 0xBE, CHR 0xD0, CHR 0xBC, CHR 0xD0, CHR 0xBE, CHR 0xD0,
      CHR 0xB4, CHR 0xD0, CHR 0xB5, CHR 0xD0, CHR 0xB4, CHR 0xD0, CHR 0xBE, CHR 0xD0,
      CHR 0xB2, CHR 0xD0, CHR 0xBE]"

definition str_Vnukovo :: string where
  \<comment> \<open>UTF-8 of the Russian display string for Vnukovo\<close>
  "str_Vnukovo =
     [CHR 0xD0, CHR 0x92, CHR 0xD0, CHR 0xBD, CHR 0xD1, CHR 0x83, CHR 0xD0, CHR 0xBA, CHR 0xD0,
      CHR 0xBE, CHR 0xD0, CHR 0xB2, CHR 0xD0, CHR 0xBE]"

definition str_Heathrow :: string where
  \<comment> \<open>UTF-8 of the Russian display string for Heathrow\<close>
  "str_Heathrow =
     [CHR 0xD0, CHR 0xA5, CHR 0xD0, CHR 0xB8, CHR 0xD1, CHR 0x82, CHR 0xD1, CHR 0x80, CHR 0xD0,
      CHR 0xBE, CHR 0xD1, CHR 0x83]"

definition str_Charles_de_Gaulle :: string where
  \<comment> \<open>UTF-8 of the Russian display string for Charles de Gaulle\<close>
  "str_Charles_de_Gaulle =
     [CHR 0xD0, CHR 0xA8, CHR 0xD0, CHR 0xB0, CHR 0xD1, CHR 0x80, CHR 0xD0, CHR 0xBB, CHR 0xD1,
      CHR 0x8C, CHR 0x20, CHR 0xD0, CHR 0xB4, CHR 0xD0, CHR 0xB5, CHR 0x20, CHR 0xD0,
      CHR 0x93, CHR 0xD0, CHR 0xBE, CHR 0xD0, CHR 0xBB, CHR 0xD0, CHR 0xBB, CHR 0xD1,
      CHR 0x8C]"

definition str_Frankfurt :: string where
  \<comment> \<open>UTF-8 of the Russian display string for Frankfurt\<close>
  "str_Frankfurt =
     [CHR 0xD0, CHR 0xA4, CHR 0xD1, CHR 0x80, CHR 0xD0, CHR 0xB0, CHR 0xD0, CHR 0xBD, CHR 0xD0,
      CHR 0xBA, CHR 0xD1, CHR 0x84, CHR 0xD1, CHR 0x83, CHR 0xD1, CHR 0x80, CHR 0xD1,
      CHR 0x82]"

definition str_Kennedy :: string where
  \<comment> \<open>UTF-8 of the Russian display string for Kennedy\<close>
  "str_Kennedy =
     [CHR 0xD0, CHR 0x9A, CHR 0xD0, CHR 0xB5, CHR 0xD0, CHR 0xBD, CHR 0xD0, CHR 0xBD, CHR 0xD0,
      CHR 0xB5, CHR 0xD0, CHR 0xB4, CHR 0xD0, CHR 0xB8]"

definition str_Los_Angeles :: string where
  \<comment> \<open>UTF-8 of the Russian display string for Los Angeles\<close>
  "str_Los_Angeles =
     [CHR 0xD0, CHR 0x9B, CHR 0xD0, CHR 0xBE, CHR 0xD1, CHR 0x81, CHR 0x2D, CHR 0xD0, CHR 0x90,
      CHR 0xD0, CHR 0xBD, CHR 0xD0, CHR 0xB4, CHR 0xD0, CHR 0xB6, CHR 0xD0, CHR 0xB5,
      CHR 0xD0, CHR 0xBB, CHR 0xD0, CHR 0xB5, CHR 0xD1, CHR 0x81]"

definition str_Haneda :: string where
  \<comment> \<open>UTF-8 of the Russian display string for Haneda\<close>
  "str_Haneda =
     [CHR 0xD0, CHR 0xA5, CHR 0xD0, CHR 0xB0, CHR 0xD0, CHR 0xBD, CHR 0xD0, CHR 0xB5, CHR 0xD0,
      CHR 0xB4, CHR 0xD0, CHR 0xB0]"

definition str_Beijing_Capital :: string where
  \<comment> \<open>UTF-8 of the Russian display string for Beijing Capital\<close>
  "str_Beijing_Capital =
     [CHR 0xD0, CHR 0x9F, CHR 0xD0, CHR 0xB5, CHR 0xD0, CHR 0xBA, CHR 0xD0, CHR 0xB8, CHR 0xD0,
      CHR 0xBD, CHR 0x20, CHR 0xD0, CHR 0xA1, CHR 0xD1, CHR 0x82, CHR 0xD0, CHR 0xBE,
      CHR 0xD0, CHR 0xBB, CHR 0xD0, CHR 0xB8, CHR 0xD1, CHR 0x87, CHR 0xD0, CHR 0xBD,
      CHR 0xD1, CHR 0x8B, CHR 0xD0, CHR 0xB9]"

definition str_Moscow :: string where
  \<comment> \<open>UTF-8 of the Russian display string for Moscow\<close>
  "str_Moscow =
     [CHR 0xD0, CHR 0x9C, CHR 0xD0, CHR 0xBE, CHR 0xD1, CHR 0x81, CHR 0xD0, CHR 0xBA, CHR 0xD0,
      CHR 0xB2, CHR 0xD0, CHR 0xB0]"

definition str_London :: string where
  \<comment> \<open>UTF-8 of the Russian display string for London\<close>
  "str_London =
     [CHR 0xD0, CHR 0x9B, CHR 0xD0, CHR 0xBE, CHR 0xD0, CHR 0xBD, CHR 0xD0, CHR 0xB4, CHR 0xD0,
      CHR 0xBE, CHR 0xD0, CHR 0xBD]"

definition str_Paris :: string where
  \<comment> \<open>UTF-8 of the Russian display string for Paris\<close>
  "str_Paris =
     [CHR 0xD0, CHR 0x9F, CHR 0xD0, CHR 0xB0, CHR 0xD1, CHR 0x80, CHR 0xD0, CHR 0xB8, CHR 0xD0,
      CHR 0xB6]"

definition str_New_York :: string where
  \<comment> \<open>UTF-8 of the Russian display string for New York\<close>
  "str_New_York =
     [CHR 0xD0, CHR 0x9D, CHR 0xD1, CHR 0x8C, CHR 0xD1, CHR 0x8E, CHR 0x2D, CHR 0xD0, CHR 0x99,
      CHR 0xD0, CHR 0xBE, CHR 0xD1, CHR 0x80, CHR 0xD0, CHR 0xBA]"

definition str_Tokyo :: string where
  \<comment> \<open>UTF-8 of the Russian display string for Tokyo\<close>
  "str_Tokyo =
     [CHR 0xD0, CHR 0xA2, CHR 0xD0, CHR 0xBE, CHR 0xD0, CHR 0xBA, CHR 0xD0, CHR 0xB8, CHR 0xD0,
      CHR 0xBE]"

definition str_Beijing :: string where
  \<comment> \<open>UTF-8 of the Russian display string for Beijing\<close>
  "str_Beijing =
     [CHR 0xD0, CHR 0x9F, CHR 0xD0, CHR 0xB5, CHR 0xD0, CHR 0xBA, CHR 0xD0, CHR 0xB8, CHR 0xD0,
      CHR 0xBD]"

definition str_Russia :: string where
  \<comment> \<open>UTF-8 of the Russian display string for Russia\<close>
  "str_Russia =
     [CHR 0xD0, CHR 0xA0, CHR 0xD0, CHR 0xBE, CHR 0xD1, CHR 0x81, CHR 0xD1, CHR 0x81, CHR 0xD0,
      CHR 0xB8, CHR 0xD1, CHR 0x8F]"

definition str_Great_Britain :: string where
  \<comment> \<open>UTF-8 of the Russian display string for Great Britain\<close>
  "str_Great_Britain =
     [CHR 0xD0, CHR 0x92, CHR 0xD0, CHR 0xB5, CHR 0xD0, CHR 0xBB, CHR 0xD0, CHR 0xB8, CHR 0xD0,
      CHR 0xBA, CHR 0xD0, CHR 0xBE, CHR 0xD0, CHR 0xB1, CHR 0xD1, CHR 0x80, CHR 0xD0,
      CHR 0xB8, CHR 0xD1, CHR 0x82, CHR 0xD0, CHR 0xB0, CHR 0xD0, CHR 0xBD, CHR 0xD0,
      CHR 0xB8, CHR 0xD1, CHR 0x8F]"

definition str_France :: string where
  \<comment> \<open>UTF-8 of the Russian display string for France\<close>
  "str_France =
     [CHR 0xD0, CHR 0xA4, CHR 0xD1, CHR 0x80, CHR 0xD0, CHR 0xB0, CHR 0xD0, CHR 0xBD, CHR 0xD1,
      CHR 0x86, CHR 0xD0, CHR 0xB8, CHR 0xD1, CHR 0x8F]"

definition str_Germany :: string where
  \<comment> \<open>UTF-8 of the Russian display string for Germany\<close>
  "str_Germany =
     [CHR 0xD0, CHR 0x93, CHR 0xD0, CHR 0xB5, CHR 0xD1, CHR 0x80, CHR 0xD0, CHR 0xBC, CHR 0xD0,
      CHR 0xB0, CHR 0xD0, CHR 0xBD, CHR 0xD0, CHR 0xB8, CHR 0xD1, CHR 0x8F]"

definition str_USA :: string where
  \<comment> \<open>UTF-8 of the Russian display string for USA\<close>
  "str_USA =
     [CHR 0xD0, CHR 0xA1, CHR 0xD0, CHR 0xA8, CHR 0xD0, CHR 0x90]"

definition str_Japan :: string where
  \<comment> \<open>UTF-8 of the Russian display string for Japan\<close>
  "str_Japan =
     [CHR 0xD0, CHR 0xAF, CHR 0xD0, CHR 0xBF, CHR 0xD0, CHR 0xBE, CHR 0xD0, CHR 0xBD, CHR 0xD0,
      CHR 0xB8, CHR 0xD1, CHR 0x8F]"

definition str_China :: string where
  \<comment> \<open>UTF-8 of the Russian display string for China\<close>
  "str_China =
     [CHR 0xD0, CHR 0x9A, CHR 0xD0, CHR 0xB8, CHR 0xD1, CHR 0x82, CHR 0xD0, CHR 0xB0, CHR 0xD0,
      CHR 0xB9]"

text \<open>The ten airports of \<open>_load_default_airports\<close>, in the order of its list.\<close>

definition airport_UUEE :: Airport where
  "airport_UUEE =
     \<lparr>icao_code = ''UUEE'', name = str_Sheremetyevo, city = str_Moscow,
      country = str_Russia, latitude = 55.9736, longitude = 37.4145, elevation = 190\<rparr>"

definition airport_UUDD :: Airport where
  "airport_UUDD =
     \<lparr>icao_code = ''UUDD'', name = str_Domodedovo, city = str_Moscow,
      country = str_Russia, latitude = 55.4146, longitude = 37.8994, elevation = 179\<rparr>"

definition airport_UUMO :: Airport where
  "airport_UUMO =
     \<lparr>icao_code = ''UUMO'', name = str_Vnukovo, city = str_Moscow,
      country = str_Russia, latitude = 55.5915, longitude = 37.2615, elevation = 209\<rparr>"

definition airport_EGLL :: Airport where
  "airport_EGLL =
     \<lparr>icao_code = ''EGLL'', name = str_Heathrow, city = str_London,
      country = str_Great_Britain, latitude = 51.4700, longitude = - 0.4543, elevation = 25\<rparr>"

definition airport_LFPG :: Airport where
  "airport_LFPG =
     \<lparr>icao_code = ''LFPG'', name = str_Charles_de_Gaulle, city = str_Paris,
      country = str_France, latitude = 49.0097, longitude = 2.5479, elevation = 119\<rparr>"

definition airport_EDDF :: Airport where
  "airport_EDDF =
     \<lparr>icao_code = ''EDDF'', name = str_Frankfurt, city = str_Frankfurt,
      country = str_Germany, latitude = 50.0379, longitude = 8.5622, elevation = 113\<rparr>"

definition airport_KJFK :: Airport where
  "airport_KJFK =
     \<lparr>icao_code = ''KJFK'', name = str_Kennedy, city = str_New_York,
      country = str_USA, latitude = 40.6413, longitude = - 73.7781, elevation = 4\<rparr>"

definition airport_KLAX :: Airport where
  "airport_KLAX =
     \<lparr>icao_code = ''KLAX'', name = str_Los_Angeles, city = str_Los_Angeles,
      country = str_USA, latitude = 33.9416, longitude = - 118.4085, elevation = 38\<rparr>"

definition airport_RJTT :: Airport where
  "airport_RJTT =
     \<lparr>icao_code = ''RJTT'', name = str_Haneda, city = str_Tokyo,
      country = str_Japan, latitude = 35.5494, longitude = 139.7798, elevation = 6\<rparr>"

definition airport_ZBAA :: Airport where
  "airport_ZBAA =
     \<lparr>icao_code = ''ZBAA'', name = str_Beijing_Capital, city = str_Beijing,
      country = str_China, latitude = 40.0801, longitude = 116.5846, elevation = 35\<rparr>"

definition default_airports :: "Airport list" where
  "default_airports =
     [airport_UUEE, airport_UUDD, airport_UUMO, airport_EGLL, airport_LFPG,
      airport_EDDF, airport_KJFK, airport_KLAX, airport_RJTT, airport_ZBAA]"

text \<open>
  The state of an \<open>AirportManager\<close> is its one attribute, the dictionary \<open>airports\<close>.
  Every method takes the state first; a method that assigns into the dictionary returns
  the new state.
\<close>

type_synonym AirportManager = "string \<rightharpoonup> Airport"

definition load_default_airports :: "AirportManager \<Rightarrow> AirportManager" where
  "load_default_airports self =
     foldl (\<lambda>airports airport. airports(icao_code airport \<mapsto> airport)) self default_airports"

definition AirportManager_init :: AirportManager where
  "AirportManager_init = load_default_airports Map.empty"

definition add_airport :: "AirportManager \<Rightarrow> Airport \<Rightarrow> AirportManager" where
  "add_airport self airport = self(icao_code airport \<mapsto> airport)"

definition get_airport :: "AirportManager \<Rightarrow> string \<Rightarrow> Airport option" where
  "get_airport self code = self (upper code)"

text \<open>
  The states a caller can reach: the constructor's, and any state after \<open>add_airport\<close>
  (\<open>import_airports\<close> changes the state only through \<open>add_airport\<close>).
\<close>

inductive reachable :: "AirportManager \<Rightarrow> bool" where
  init: "reachable AirportManager_init"
| add: "reachable self \<Longrightarrow> reachable (add_airport self airport)"

text \<open>
  An \<open>Airport\<close> object is always true in \<open>not airport1 or not airport2\<close>, so the early
  return is taken exactly when a lookup gave \<open>None\<close>. The haversine formula is written
  out again here, with the radius 6371 as a literal.
\<close>

definition calculate_distance_between_airports ::
    "AirportManager \<Rightarrow> string \<Rightarrow> string \<Rightarrow> py_error + real option" where
  "calculate_distance_between_airports self icao1 icao2 =
     (case (get_airport self icao1, get_airport self icao2) of
        (Some airport1, Some airport2) \<Rightarrow>
          (let lat1 = radians (latitude airport1);
               lon1 = radians (longitude airport1);
               lat2 = radians (latitude airport2);
               lon2 = radians (longitude airport2);
               dlat = lat2 - lat1;
               dlon = lon2 - lon1;
               a = (sin (dlat / 2))\<^sup>2 + cos lat1 * cos lat2 * (sin (dlon / 2))\<^sup>2
           in py_bind (math_sqrt a) (\<lambda>r.
              py_bind (math_asin r) (\<lambda>s.
                (let c = 2 * s;
                     earth_radius = 6371;
                     distance = earth_radius * c
                 in Inr (Some distance)))))
      | _ \<Rightarrow> Inr None)"

text \<open>The dictionary that \<open>get_route_info\<close> returns has these four keys.\<close>

record route_info =
  route_departure :: Airport
  route_arrival :: Airport
  route_distance_km :: "real option"
  route_route :: string

definition arrow :: string where
  \<comment> \<open>UTF-8 of a space, the rightwards arrow U+2192 and a space\<close>
  "arrow = [CHR 0x20, CHR 0xE2, CHR 0x86, CHR 0x92, CHR 0x20]"

definition get_route_info ::
    "AirportManager \<Rightarrow> string \<Rightarrow> string \<Rightarrow> py_error + route_info option" where
  "get_route_info self departure arrival =
     (case (get_airport self departure, get_airport self arrival) of
        (Some dep_airport, Some arr_airport) \<Rightarrow>
          py_bind (calculate_distance_between_airports self departure arrival) (\<lambda>distance.
            Inr (Some
              \<lparr>route_departure = to_dict dep_airport,
               route_arrival = to_dict arr_airport,
               route_distance_km = distance,
               route_route = icao_code dep_airport @ arrow @ icao_code arr_airport\<rparr>))
      | _ \<Rightarrow> Inr None)"

section \<open>fuel\_calculator.py\<close>

record FuelConsumption =
  total_fuel :: real
  fuel_per_100km :: real
  fuel_per_hour :: real
  flight_time :: real
  distance :: real

text \<open>
  Each aircraft profile is a dictionary literal with the same four keys, read only at
  literal keys: a record. The table of profiles is read at a computed key: a map.
\<close>

record profile =
  fuel_rate :: real
  cruise_speed :: real
  max_range :: real
  fuel_capacity :: real

definition aircraft_profiles :: "string \<rightharpoonup> profile" where
  "aircraft_profiles = map_of
     [(''boeing_737'',
         \<lparr>fuel_rate = 2.5, cruise_speed = 800, max_range = 5000, fuel_capacity = 26000\<rparr>),
      (''airbus_a320'',
         \<lparr>fuel_rate = 2.3, cruise_speed = 820, max_range = 5500, fuel_capacity = 24000\<rparr>),
      (''boeing_777'',
         \<lparr>fuel_rate = 4.2, cruise_speed = 900, max_range = 15000, fuel_capacity = 180000\<rparr>),
      (''airbus_a380'',
         \<lparr>fuel_rate = 5.8, cruise_speed = 900, max_range = 15000, fuel_capacity = 320000\<rparr>),
      (''cessna_172'',
         \<lparr>fuel_rate = 0.8, cruise_speed = 200, max_range = 1000, fuel_capacity = 200\<rparr>),
      (''default'',
         \<lparr>fuel_rate = 2.0, cruise_speed = 600, max_range = 3000, fuel_capacity = 5000\<rparr>)]"

text \<open>
  The parameter \<open>distance\<close> of the methods is written \<open>distance_km\<close>, the field of
  \<open>FuelConsumption\<close> having the name. \<open>wind_factor\<close> and \<open>payload_factor\<close> have the
  default 1.0. Python evaluates the fallback \<open>aircraft_profiles["default"]\<close> before the
  lookup.
\<close>

definition calculate_fuel_consumption ::
    "real \<Rightarrow> string \<Rightarrow> real \<Rightarrow> real \<Rightarrow> py_error + FuelConsumption" where
  "calculate_fuel_consumption distance_km aircraft_type wind_factor payload_factor =
     py_bind (getitem aircraft_profiles ''default'') (\<lambda>dflt.
       (let profile = dict_get aircraft_profiles (lower aircraft_type) dflt;
            base_fuel_rate = fuel_rate profile;
            adjusted_fuel_rate = base_fuel_rate * wind_factor * payload_factor;
            cruise_speed = cruise_speed profile
        in py_bind (py_div distance_km cruise_speed) (\<lambda>flight_time.
             (let total_fuel = (distance_km / 100) * adjusted_fuel_rate
              in py_bind (if flight_time > 0 then py_div total_fuel flight_time else Inr 0)
                   (\<lambda>fuel_per_hour.
                      Inr \<lparr>total_fuel = total_fuel,
                           fuel_per_100km = adjusted_fuel_rate,
                           fuel_per_hour = fuel_per_hour,
                           flight_time = flight_time,
                           distance = distance_km\<rparr>)))))"

text \<open>
  The same method over binary64, each operation rounded. A fuel rate of the table is a
  decimal literal, which is the binary64 number nearest to it; a cruise speed and the
  literals 100 and 0 are integers, converted exactly.
\<close>

record FuelConsumption_f64 =
  total_fuel_f64 :: float64
  fuel_per_100km_f64 :: float64
  fuel_per_hour_f64 :: float64
  flight_time_f64 :: float64
  distance_f64 :: float64

definition calculate_fuel_consumption_f64 ::
    "float64 \<Rightarrow> string \<Rightarrow> float64 \<Rightarrow> float64 \<Rightarrow> py_error + FuelConsumption_f64" where
  "calculate_fuel_consumption_f64 distance_km aircraft_type wind_factor payload_factor =
     py_bind (getitem aircraft_profiles ''default'') (\<lambda>dflt.
       (let profile = dict_get aircraft_profiles (lower aircraft_type) dflt;
            base_fuel_rate = round64 (fuel_rate profile);
            adjusted_fuel_rate = f64_mul (f64_mul base_fuel_rate wind_factor) payload_factor;
            cruise_speed = Finite (cruise_speed profile)
        in py_bind (f64_div distance_km cruise_speed) (\<lambda>flight_time.
           py_bind (f64_div distance_km (Finite 100)) (\<lambda>hundreds.
             (let total_fuel = f64_mul hundreds adjusted_fuel_rate
              in py_bind (if f64_lt (Finite 0) flight_time
                          then f64_div total_fuel flight_time else Inr (Finite 0))
                   (\<lambda>fuel_per_hour.
                      Inr \<lparr>total_fuel_f64 = total_fuel,
                           fuel_per_100km_f64 = adjusted_fuel_rate,
                           fuel_per_hour_f64 = fuel_per_hour,
                           flight_time_f64 = flight_time,
                           distance_f64 = distance_km\<rparr>))))))"


definition calculate_fuel_cost :: "FuelConsumption \<Rightarrow> real \<Rightarrow> real" where
  "calculate_fuel_cost fuel_consumption fuel_price = total_fuel fuel_consumption * fuel_price"







section \<open>Flight time\<close>

text \<open>
  Claim C4. For every distance and every speed greater than 0, with the default wind
  factor 1.0, \<open>calculate_flight_time\<close> returns distance / speed; for every speed less than
  or equal to 0 it fails with the invalid-argument error \<open>ValueError\<close>, whatever the wind
  factor.
\<close>

theorem calculate_flight_time_spec:
  "(0 < speed \<longrightarrow> calculate_flight_time d speed 1 = Inr (d / speed)) \<and>
   (speed \<le> 0 \<longrightarrow> calculate_flight_time d speed wind_factor = Inl ValueError)"
  by (simp add: calculate_flight_time_def py_div_def)

theorem calculate_flight_time_spec_witness:
  "(0::real) < 800 \<and> calculate_flight_time 1000 800 1 = Inr 1.25 \<and>
   (- 100::real) \<le> 0 \<and> calculate_flight_time 1000 (- 100) 0.8 = Inl ValueError"
  using calculate_flight_time_spec [of 800 1000 "0.8"]
    calculate_flight_time_spec [of "- 100" 1000 "0.8"]
  by simp

section \<open>Great-circle distance\<close>

text \<open>
  The argument of the square root is a haversine; it lies in \<open>[0, 1]\<close> for all real
  coordinates, also outside the ranges of a latitude and a longitude, so that neither
  \<open>math.sqrt\<close> nor \<open>math.asin\<close> raises.
\<close>

lemma sin_half_sq: "(sin (x / 2))\<^sup>2 = (1 - cos x) / (2::real)"
  using cos_double_sin [of "x / 2"] by simp

lemma haversine_decomp:
  fixes a b d :: real
  shows "(sin ((b - a) / 2))\<^sup>2 + cos a * cos b * (sin (d / 2))\<^sup>2 =
     (1 - (sin (d / 2))\<^sup>2) * ((1 - cos (b - a)) / 2) + (sin (d / 2))\<^sup>2 * ((1 + cos (b + a)) / 2)"
proof -
  have "(1 + cos (b + a)) / 2 = (1 - cos (b - a)) / 2 + cos a * cos b"
    by (simp add: cos_add cos_diff field_simps)
  then show ?thesis
    unfolding sin_half_sq [of "b - a"] by (simp add: algebra_simps)
qed

lemma haversine_nonneg:
  fixes a b d :: real
  shows "0 \<le> (sin ((b - a) / 2))\<^sup>2 + cos a * cos b * (sin (d / 2))\<^sup>2"
proof -
  let ?s = "(sin (d / 2))\<^sup>2"
  have s1: "?s \<le> 1" by (simp add: abs_square_le_1)
  have e1: "0 \<le> (1 + cos (b + a)) / 2"
    using neg_le_iff_le by fastforce
  have "0 \<le> (1 - ?s) * ((1 - cos (b - a)) / 2) + ?s * ((1 + cos (b + a)) / 2)"
    using s1 e1 by (intro add_nonneg_nonneg mult_nonneg_nonneg) simp_all
  then show ?thesis by (simp only: haversine_decomp)
qed

lemma haversine_le_1:
  fixes a b d :: real
  shows "(sin ((b - a) / 2))\<^sup>2 + cos a * cos b * (sin (d / 2))\<^sup>2 \<le> 1"
proof -
  let ?s = "(sin (d / 2))\<^sup>2"
  have s1: "?s \<le> 1" by (simp add: abs_square_le_1)
  have e0: "(1 - cos (b - a)) / 2 \<le> 1" by simp
  have e1: "(1 + cos (b + a)) / 2 \<le> 1" by simp
  have "(1 - ?s) * ((1 - cos (b - a)) / 2) + ?s * ((1 + cos (b + a)) / 2)
          \<le> (1 - ?s) * 1 + ?s * 1"
    using s1 e0 e1 by (intro add_mono mult_left_mono) simp_all
  then show ?thesis by (simp only: haversine_decomp) simp
qed

lemma sqrt_asin_returns:
  assumes "0 \<le> x" and "x \<le> 1"
  shows "py_bind (math_sqrt x) (\<lambda>r. py_bind (math_asin r) f) = f (arcsin (sqrt x))"
proof -
  have r0: "0 \<le> sqrt x" using assms(1) by simp
  have r1: "sqrt x \<le> 1" using assms(2) by simp
  have n: "\<not> (sqrt x < - 1 \<or> 1 < sqrt x)" using r0 r1 by linarith
  have 1: "math_sqrt x = Inr (sqrt x)" using assms(1) by (simp add: math_sqrt_def)
  have 2: "math_asin (sqrt x) = Inr (arcsin (sqrt x))"
    unfolding math_asin_def using n by (simp only: if_False)
  show ?thesis by (simp only: 1 2 py_bind.simps)
qed

lemma calculate_distance_value:
  "calculate_distance lat1 lon1 lat2 lon2 = Inr (haversine lat1 lon1 lat2 lon2)"
  unfolding calculate_distance_def Let_def haversine_def earth_radius_def
  by (simp only: sqrt_asin_returns [OF haversine_nonneg haversine_le_1])

lemma calculate_distance_between_airports_value:
  "calculate_distance_between_airports self icao1 icao2 =
     (case get_airport self icao1 of
        None \<Rightarrow> Inr None
      | Some airport1 \<Rightarrow>
          (case get_airport self icao2 of
             None \<Rightarrow> Inr None
           | Some airport2 \<Rightarrow>
               Inr (Some (haversine (latitude airport1) (longitude airport1)
                            (latitude airport2) (longitude airport2)))))"
  unfolding calculate_distance_between_airports_def Let_def haversine_def
  by (simp add: sqrt_asin_returns [OF haversine_nonneg haversine_le_1] split: option.split)

lemma haversine_sym: "haversine lat1 lon1 lat2 lon2 = haversine lat2 lon2 lat1 lon1"
proof -
  have s: "(sin ((x - y) / 2))\<^sup>2 = (sin ((y - x) / 2))\<^sup>2" for x y :: real
  proof -
    have "(x - y) / 2 = - ((y - x) / 2)" by (simp add: field_simps)
    then show ?thesis by (simp only: sin_minus power2_minus)
  qed
  show ?thesis
    unfolding haversine_def
    by (simp only: s [of "radians lat2" "radians lat1"] s [of "radians lon2" "radians lon1"] mult.commute [of "cos (radians lat1)"])
qed

lemma haversine_same: "haversine lat lon lat lon = 0"
  by (simp add: haversine_def)

text \<open>
  Claim C8. The haversine distance function is symmetric in its two points, and it
  returns 0 for identical points; so is the copy of the formula in
  \<open>calculate_distance_between_airports\<close>, in the two airport codes.
\<close>

theorem calculate_distance_symmetric_and_zero:
  "calculate_distance lat1 lon1 lat2 lon2 = calculate_distance lat2 lon2 lat1 lon1 \<and>
   calculate_distance lat lon lat lon = Inr 0 \<and>
   calculate_distance_between_airports self icao1 icao2 =
     calculate_distance_between_airports self icao2 icao1"
proof (intro conjI)
  show "calculate_distance lat1 lon1 lat2 lon2 = calculate_distance lat2 lon2 lat1 lon1"
    by (simp only: calculate_distance_value haversine_sym [of lat1 lon1 lat2 lon2])
  show "calculate_distance lat lon lat lon = Inr 0"
    by (simp only: calculate_distance_value haversine_same)
  show "calculate_distance_between_airports self icao1 icao2 =
     calculate_distance_between_airports self icao2 icao1"
  proof (cases "get_airport self icao1")
    case None
    then show ?thesis
      by (simp add: calculate_distance_between_airports_value split: option.split)
  next
    case a: (Some airport1)
    show ?thesis
    proof (cases "get_airport self icao2")
      case None
      then show ?thesis
        by (simp add: calculate_distance_between_airports_value split: option.split)
    next
      case b: (Some airport2)
      show ?thesis
        unfolding calculate_distance_between_airports_value a b
        by (simp add: haversine_sym [of "latitude airport1" "longitude airport1"])
    qed
  qed
qed

section \<open>Weather classification\<close>

text \<open>
  Claim C2, as the code has it. The chain of checks looks at the visibility first: a
  visibility in the poor band, from 500 up to 1000, returns "poor" before the wind is
  looked at. Here a wind speed of 35 is classified with a visibility of 700.
\<close>

theorem wind_35_visibility_700_is_poor:
  "cond_overall_condition (analyze_conditions 15 1013 35 (Some 700)) = ''poor'' \<and>
   cond_overall_condition (analyze_conditions 15 1013 35 (Some 700)) \<noteq> ''dangerous''"
  by (simp add: analyze_conditions_def get_overall_condition_def
        visibility_thresholds_def wind_thresholds_def)

text \<open>
  Claim C2, amended. For every temperature and pressure, a wind speed of 35 makes the
  overall condition "dangerous" when the visibility is absent, below 500, or at least
  1000; with a visibility from 500 up to 1000 the overall condition is "poor".
\<close>

theorem wind_35_overall_condition:
  "cond_overall_condition (analyze_conditions temperature pressure 35 visibility) =
     (case visibility of
        None \<Rightarrow> ''dangerous''
      | Some vis \<Rightarrow> if 500 \<le> vis \<and> vis < 1000 then ''poor'' else ''dangerous'')"
  by (simp add: analyze_conditions_def get_overall_condition_def
        visibility_thresholds_def wind_thresholds_def split: option.split)

text \<open>
  Claim C10. For every temperature, pressure, wind speed and optional visibility, the
  list of recommendations that \<open>analyze_conditions\<close> returns is not empty; when no
  warning applies (wind at most 20, pressure from 1000 to 1030, visibility absent or at
  least 5000, temperature from -20 to 40) it is the one favourable-conditions message.
\<close>

theorem recommendations_nonempty:
  "cond_recommendations (analyze_conditions temperature pressure wind_speed visibility) \<noteq> [] \<and>
   (wind_speed \<le> 20 \<and> 1000 \<le> pressure \<and> pressure \<le> 1030 \<and>
    (case visibility of None \<Rightarrow> True | Some vis \<Rightarrow> 5000 \<le> vis) \<and>
    - 20 \<le> temperature \<and> temperature \<le> 40 \<longrightarrow>
    cond_recommendations (analyze_conditions temperature pressure wind_speed visibility) =
      [msg_favorable])"
  by (auto simp add: analyze_conditions_def get_recommendations_def Let_def
        visibility_thresholds_def wind_thresholds_def split: option.splits)

theorem recommendations_nonempty_witness:
  "cond_recommendations (analyze_conditions 15 1013 12 (Some 8000)) \<noteq> [] \<and>
   (12::real) \<le> 20 \<and> (1000::real) \<le> 1013 \<and> (1013::real) \<le> 1030 \<and>
   (5000::real) \<le> 8000 \<and> (- 20::real) \<le> 15 \<and> (15::real) \<le> 40 \<and>
   cond_recommendations (analyze_conditions 15 1013 12 (Some 8000)) = [msg_favorable]"
  using recommendations_nonempty [of 15 1013 12 "Some 8000"]
  by simp

section \<open>Fuel consumption\<close>

text \<open>
  The table of profiles has the key "default", and every profile in it has a positive
  cruise speed: the two facts by which \<open>calculate_fuel_consumption\<close> never raises.
\<close>

lemma aircraft_profiles_default:
  "aircraft_profiles ''default'' =
     Some \<lparr>fuel_rate = 2.0, cruise_speed = 600, max_range = 3000, fuel_capacity = 5000\<rparr>"
  unfolding aircraft_profiles_def by simp

lemma getitem_default_profile:
  "\<exists>dflt. getitem aircraft_profiles ''default'' = Inr dflt"
  by (simp add: getitem_def aircraft_profiles_default)

lemma aircraft_profiles_cruise_speed:
  "aircraft_profiles k = Some p \<Longrightarrow> 0 < cruise_speed p"
  by (auto simp add: aircraft_profiles_def split: if_splits)

lemma dict_get_cruise_speed:
  assumes "aircraft_profiles ''default'' = Some dflt"
  shows "0 < cruise_speed (dict_get aircraft_profiles k dflt)"
proof (cases "aircraft_profiles k")
  case None
  then show ?thesis
    using aircraft_profiles_cruise_speed [OF assms] by (simp add: dict_get_def)
next
  case (Some p)
  then show ?thesis
    using aircraft_profiles_cruise_speed [of k p] by (simp add: dict_get_def)
qed

lemma calculate_fuel_consumption_value:
  assumes "aircraft_profiles ''default'' = Some dflt"
    and "p = dict_get aircraft_profiles (lower aircraft_type) dflt"
  shows "calculate_fuel_consumption d aircraft_type wind_factor payload_factor =
     Inr \<lparr>total_fuel = (d / 100) * (fuel_rate p * wind_factor * payload_factor),
          fuel_per_100km = fuel_rate p * wind_factor * payload_factor,
          fuel_per_hour =
            (if d / cruise_speed p > 0
             then ((d / 100) * (fuel_rate p * wind_factor * payload_factor)) / (d / cruise_speed p) else 0),
          flight_time = d / cruise_speed p,
          distance = d\<rparr>"
proof -
  have c: "0 < cruise_speed p"
    unfolding assms(2) by (rule dict_get_cruise_speed [OF assms(1)])
  have g: "getitem aircraft_profiles ''default'' = Inr dflt"
    by (simp add: getitem_def assms(1))
  show ?thesis
    unfolding calculate_fuel_consumption_def g py_bind.simps Let_def assms(2) [symmetric]
    using c by (simp add: py_div_def)
qed

text \<open>
  Claim C3. For every distance, aircraft type, wind factor and payload factor,
  \<open>calculate_fuel_consumption\<close> uses the profile found by lowercasing the aircraft
  type, falling back to the "default" profile when the key is absent, and never fails;
  its result has total_fuel = (distance / 100) * fuel_rate * wind_factor *
  payload_factor, flight_time = distance / cruise_speed (a division by a non-zero
  cruise speed), fuel_per_100km equal to the adjusted rate, and fuel_per_hour =
  total_fuel / flight_time when flight_time > 0 and 0 otherwise.
\<close>

theorem calculate_fuel_consumption_spec:
  "\<exists>dflt. aircraft_profiles ''default'' = Some dflt \<and>
     (let profile = (case aircraft_profiles (lower aircraft_type) of
                       None \<Rightarrow> dflt | Some p \<Rightarrow> p);
          total = (d / 100) * fuel_rate profile * wind_factor * payload_factor;
          time = d / cruise_speed profile
      in cruise_speed profile \<noteq> 0 \<and>
         calculate_fuel_consumption d aircraft_type wind_factor payload_factor =
           Inr \<lparr>total_fuel = total,
                fuel_per_100km = fuel_rate profile * wind_factor * payload_factor,
                fuel_per_hour = (if time > 0 then total / time else 0),
                flight_time = time,
                distance = d\<rparr>)"
proof -
  obtain dflt where dflt: "aircraft_profiles ''default'' = Some dflt"
    using aircraft_profiles_default by blast
  define p where "p = dict_get aircraft_profiles (lower aircraft_type) dflt"
  have p: "(case aircraft_profiles (lower aircraft_type) of None \<Rightarrow> dflt | Some q \<Rightarrow> q) = p"
    by (simp add: p_def dict_get_def)
  have c: "cruise_speed p \<noteq> 0"
    using dict_get_cruise_speed [OF dflt, of "lower aircraft_type"] by (simp add: p_def)
  have v: "calculate_fuel_consumption d aircraft_type wind_factor payload_factor =
        Inr \<lparr>total_fuel = (d / 100) * fuel_rate p * wind_factor * payload_factor,
             fuel_per_100km = fuel_rate p * wind_factor * payload_factor,
             fuel_per_hour =
               (if d / cruise_speed p > 0
                then ((d / 100) * fuel_rate p * wind_factor * payload_factor) /
                       (d / cruise_speed p)
                else 0),
             flight_time = d / cruise_speed p,
             distance = d\<rparr>"
    by (simp only: calculate_fuel_consumption_value [OF dflt p_def] mult.assoc)
  show ?thesis
  proof (intro exI [of _ dflt] conjI)
    show "aircraft_profiles ''default'' = Some dflt" by (rule dflt)
    show "let profile = (case aircraft_profiles (lower aircraft_type) of
                       None \<Rightarrow> dflt | Some p \<Rightarrow> p);
          total = (d / 100) * fuel_rate profile * wind_factor * payload_factor;
          time = d / cruise_speed profile
      in cruise_speed profile \<noteq> 0 \<and>
         calculate_fuel_consumption d aircraft_type wind_factor payload_factor =
           Inr \<lparr>total_fuel = total,
                fuel_per_100km = fuel_rate profile * wind_factor * payload_factor,
                fuel_per_hour = (if time > 0 then total / time else 0),
                flight_time = time,
                distance = d\<rparr>"
      unfolding Let_def p by (intro conjI c v)
  qed
qed

text \<open>
  In exact arithmetic the fuel burnt per hour does not depend on a positive distance:
  the distance cancels in total_fuel / flight_time. This is a property of the model over
  the real numbers only; the section on binary64 rounding has what holds of the floats.
\<close>

lemma fuel_per_hour_exact_arithmetic:
  assumes "0 < d1" and "0 < d2"
  shows "\<exists>dflt r1 r2. aircraft_profiles ''default'' = Some dflt \<and>
     calculate_fuel_consumption d1 aircraft_type wind_factor payload_factor = Inr r1 \<and>
     calculate_fuel_consumption d2 aircraft_type wind_factor payload_factor = Inr r2 \<and>
     fuel_per_hour r1 =
       (let profile = (case aircraft_profiles (lower aircraft_type) of
                         None \<Rightarrow> dflt | Some p \<Rightarrow> p)
        in cruise_speed profile * fuel_rate profile * wind_factor * payload_factor / 100) \<and>
     fuel_per_hour r2 = fuel_per_hour r1"
proof -
  obtain dflt where dflt: "aircraft_profiles ''default'' = Some dflt"
    using aircraft_profiles_default by blast
  define p where "p = dict_get aircraft_profiles (lower aircraft_type) dflt"
  have p: "(case aircraft_profiles (lower aircraft_type) of None \<Rightarrow> dflt | Some q \<Rightarrow> q) = p"
    by (simp add: p_def dict_get_def)
  have c: "0 < cruise_speed p"
    using dict_get_cruise_speed [OF dflt, of "lower aircraft_type"] by (simp add: p_def)
  have h: "fuel_per_hour r = cruise_speed p * fuel_rate p * wind_factor * payload_factor / 100"
    if x: "0 < x"
      and r: "calculate_fuel_consumption x aircraft_type wind_factor payload_factor = Inr r"
    for x r
  proof -
    have t: "0 < x / cruise_speed p" using x c by simp
    have "fuel_per_hour r =
        ((x / 100) * (fuel_rate p * wind_factor * payload_factor)) / (x / cruise_speed p)"
      using r t unfolding calculate_fuel_consumption_value [OF dflt p_def] by auto
    also have "\<dots> = cruise_speed p * fuel_rate p * wind_factor * payload_factor / 100"
      using x c by (simp add: field_simps)
    finally show ?thesis .
  qed
  obtain r1 where r1: "calculate_fuel_consumption d1 aircraft_type wind_factor payload_factor = Inr r1"
    unfolding calculate_fuel_consumption_value [OF dflt p_def] by blast
  obtain r2 where r2: "calculate_fuel_consumption d2 aircraft_type wind_factor payload_factor = Inr r2"
    unfolding calculate_fuel_consumption_value [OF dflt p_def] by blast
  have e1: "fuel_per_hour r1 =
      cruise_speed p * fuel_rate p * wind_factor * payload_factor / 100"
    by (rule h [OF assms(1) r1])
  have e2: "fuel_per_hour r2 = fuel_per_hour r1"
    by (simp only: h [OF assms(1) r1] h [OF assms(2) r2])
  have "aircraft_profiles ''default'' = Some dflt \<and>
     calculate_fuel_consumption d1 aircraft_type wind_factor payload_factor = Inr r1 \<and>
     calculate_fuel_consumption d2 aircraft_type wind_factor payload_factor = Inr r2 \<and>
     fuel_per_hour r1 =
       (let profile = (case aircraft_profiles (lower aircraft_type) of
                         None \<Rightarrow> dflt | Some p \<Rightarrow> p)
        in cruise_speed profile * fuel_rate profile * wind_factor * payload_factor / 100) \<and>
     fuel_per_hour r2 = fuel_per_hour r1"
    unfolding Let_def p by (intro conjI dflt r1 r2 e1 e2)
  then show ?thesis
    by (intro exI)
qed

section \<open>Efficiency comparison\<close>








section \<open>Airport registry\<close>

text \<open>
  The constructor's dictionary, written out, and what holds of every reachable state:
  an airport is stored under its ICAO code as it is, in whatever case.
\<close>

lemma default_icao_codes:
  "icao_code airport_UUEE = ''UUEE''" "icao_code airport_UUDD = ''UUDD''"
  "icao_code airport_UUMO = ''UUMO''" "icao_code airport_EGLL = ''EGLL''"
  "icao_code airport_LFPG = ''LFPG''" "icao_code airport_EDDF = ''EDDF''"
  "icao_code airport_KJFK = ''KJFK''" "icao_code airport_KLAX = ''KLAX''"
  "icao_code airport_RJTT = ''RJTT''" "icao_code airport_ZBAA = ''ZBAA''"
  by (simp_all add: airport_UUEE_def airport_UUDD_def airport_UUMO_def airport_EGLL_def
        airport_LFPG_def airport_EDDF_def airport_KJFK_def airport_KLAX_def airport_RJTT_def
        airport_ZBAA_def)

lemma AirportManager_init_map:
  "AirportManager_init =
     [''UUEE'' \<mapsto> airport_UUEE, ''UUDD'' \<mapsto> airport_UUDD, ''UUMO'' \<mapsto> airport_UUMO,
      ''EGLL'' \<mapsto> airport_EGLL, ''LFPG'' \<mapsto> airport_LFPG, ''EDDF'' \<mapsto> airport_EDDF,
      ''KJFK'' \<mapsto> airport_KJFK, ''KLAX'' \<mapsto> airport_KLAX, ''RJTT'' \<mapsto> airport_RJTT,
      ''ZBAA'' \<mapsto> airport_ZBAA]"
  by (simp add: AirportManager_init_def load_default_airports_def default_airports_def
        default_icao_codes)

lemma AirportManager_init_keys:
  "AirportManager_init k = Some a \<Longrightarrow> k = icao_code a"
  unfolding AirportManager_init_map
  by (auto simp add: default_icao_codes split: if_splits)

lemma reachable_key_is_icao_code:
  "reachable self \<Longrightarrow> self k = Some a \<Longrightarrow> k = icao_code a"
proof (induction arbitrary: k a rule: reachable.induct)
  case init
  then show ?case by (rule AirportManager_init_keys)
next
  case (add self airport)
  then show ?case
    by (auto simp add: add_airport_def split: if_splits)
qed

text \<open>
  Claim C1 says that in every reachable state of the registry each key is the uppercase
  form of the ICAO code of the airport stored under it, and that \<open>add_airport\<close> stores
  an airport under the uppercased form of its code. \<open>get_airport\<close> uppercases the code
  it is asked for; \<open>add_airport\<close> does not uppercase the code it stores under. Here
  an airport with the code "abcd" is added to the constructor's state: it is stored under
  "abcd", nothing is stored under "ABCD", and \<open>get_airport\<close> does not find the airport
  by its own code.
\<close>

theorem add_airport_key_not_uppercased:
  "(let airport = \<lparr>icao_code = ''abcd'', name = ''Test'', city = ''Town'', country = ''Land'',
                     latitude = 10, longitude = 20, elevation = 0\<rparr>;
        self = add_airport AirportManager_init airport
    in reachable self \<and>
       self ''abcd'' = Some airport \<and>
       upper (icao_code airport) = ''ABCD'' \<and>
       self (upper (icao_code airport)) = None \<and>
       get_airport self (icao_code airport) = None)"
proof -
  have u: "upper ''abcd'' = ''ABCD''"
    by (simp add: upper_def upper_char_def)
  have n: "AirportManager_init ''ABCD'' = None"
    unfolding AirportManager_init_map by simp
  have r: "reachable (add_airport AirportManager_init airport)" for airport
    by (intro reachable.add reachable.init)
  show ?thesis
    unfolding Let_def
    by (intro conjI r) (simp_all add: add_airport_def get_airport_def u n)
qed

section \<open>Distance and route between registered airports\<close>

lemma to_dict_id: "to_dict airport = airport"
  by (simp add: to_dict_def)

text \<open>
  What the two methods return, in terms of the two lookups by \<open>get_airport\<close>: \<open>None\<close>
  when either lookup finds nothing; otherwise the haversine distance between the two
  airports found, which is what \<open>calculate_distance\<close> returns on their coordinates, and
  a dictionary with both airports' dictionaries, that distance, and the label made of
  the departure airport's ICAO code, an arrow, and the arrival airport's ICAO code.
\<close>

lemma distance_and_route_by_get_airport:
  "(get_airport self code1 = None \<or> get_airport self code2 = None \<longrightarrow>
      calculate_distance_between_airports self code1 code2 = Inr None \<and>
      get_route_info self code1 code2 = Inr None) \<and>
   (get_airport self code1 = Some airport1 \<and> get_airport self code2 = Some airport2 \<longrightarrow>
      calculate_distance (latitude airport1) (longitude airport1)
          (latitude airport2) (longitude airport2) =
        Inr (haversine (latitude airport1) (longitude airport1)
               (latitude airport2) (longitude airport2)) \<and>
      calculate_distance_between_airports self code1 code2 =
        Inr (Some (haversine (latitude airport1) (longitude airport1)
                     (latitude airport2) (longitude airport2))) \<and>
      get_route_info self code1 code2 =
        Inr (Some \<lparr>route_departure = airport1,
                   route_arrival = airport2,
                   route_distance_km =
                     Some (haversine (latitude airport1) (longitude airport1)
                             (latitude airport2) (longitude airport2)),
                   route_route = icao_code airport1 @ arrow @ icao_code airport2\<rparr>))"
proof (intro conjI impI)
  assume "get_airport self code1 = None \<or> get_airport self code2 = None"
  then show "calculate_distance_between_airports self code1 code2 = Inr None"
    by (auto simp add: calculate_distance_between_airports_value split: option.split)
next
  assume "get_airport self code1 = None \<or> get_airport self code2 = None"
  then show "get_route_info self code1 code2 = Inr None"
    by (auto simp add: get_route_info_def split: option.split)
next
  show "calculate_distance (latitude airport1) (longitude airport1)
          (latitude airport2) (longitude airport2) =
        Inr (haversine (latitude airport1) (longitude airport1)
               (latitude airport2) (longitude airport2))"
    by (rule calculate_distance_value)
next
  assume "get_airport self code1 = Some airport1 \<and> get_airport self code2 = Some airport2"
  then show "calculate_distance_between_airports self code1 code2 =
        Inr (Some (haversine (latitude airport1) (longitude airport1)
                     (latitude airport2) (longitude airport2)))"
    by (simp add: calculate_distance_between_airports_value)
next
  assume "get_airport self code1 = Some airport1 \<and> get_airport self code2 = Some airport2"
  then show "get_route_info self code1 code2 =
        Inr (Some \<lparr>route_departure = airport1,
                   route_arrival = airport2,
                   route_distance_km =
                     Some (haversine (latitude airport1) (longitude airport1)
                             (latitude airport2) (longitude airport2)),
                   route_route = icao_code airport1 @ arrow @ icao_code airport2\<rparr>)"
    by (simp add: get_route_info_def calculate_distance_between_airports_value to_dict_id)
qed

text \<open>
  Claim C7 says that the two methods return an absent result when either supplied code
  has no registered airport, and the distance and the route otherwise. The methods look
  the airports up with \<open>get_airport\<close>, which uppercases the code, and \<open>add_airport\<close>
  stores an airport under its code as it is: the defect shown for claim C1. Here an
  airport with the code "abcd" is added to the constructor's state. Both "abcd" and
  "UUEE" then have a registered airport, and both methods return \<open>None\<close> for the pair.
\<close>

theorem registered_airports_not_found:
  "(let airport = \<lparr>icao_code = ''abcd'', name = ''Test'', city = ''Town'', country = ''Land'',
                     latitude = 10, longitude = 20, elevation = 0\<rparr>;
        self = add_airport AirportManager_init airport
    in reachable self \<and>
       self ''abcd'' = Some airport \<and>
       self ''UUEE'' = Some airport_UUEE \<and>
       calculate_distance_between_airports self ''abcd'' ''UUEE'' = Inr None \<and>
       get_route_info self ''abcd'' ''UUEE'' = Inr None)"
proof -
  have u: "upper ''abcd'' = ''ABCD''" "upper ''UUEE'' = ''UUEE''"
    by (simp_all add: upper_def upper_char_def)
  have n: "AirportManager_init ''ABCD'' = None"
    and e: "AirportManager_init ''UUEE'' = Some airport_UUEE"
    unfolding AirportManager_init_map by simp_all
  have r: "reachable (add_airport AirportManager_init airport)" for airport
    by (intro reachable.add reachable.init)
  have g: "get_airport (add_airport AirportManager_init airport) ''abcd'' = None"
    if "icao_code airport = ''abcd''" for airport
    using that by (simp add: get_airport_def add_airport_def u n)
  have d: "calculate_distance_between_airports
      (add_airport AirportManager_init airport) ''abcd'' ''UUEE'' = Inr None"
    and i: "get_route_info (add_airport AirportManager_init airport) ''abcd'' ''UUEE'' =
      Inr None"
    if "icao_code airport = ''abcd''" for airport
    by (simp_all add: calculate_distance_between_airports_value get_route_info_def g [OF that])
  show ?thesis
    unfolding Let_def
    by (intro conjI r d i) (simp_all add: add_airport_def e)
qed

section \<open>Binary64 rounding\<close>

text \<open>
  Rounding moves a number by at most half a unit in the last place: a relative error of
  at most 2 to the power -53 in the normal range. A number rounds to zero exactly when
  its magnitude is at most 2 to the power -1075, half the smallest subnormal number.
\<close>

lemma round_half_even_near: "\<bar>of_int (round_half_even r) - r\<bar> \<le> 1 / 2"
  unfolding round_half_even_def Let_def by (auto simp: abs_if) linarith+


lemma powr_powi_2: "(2::real) powr real_of_int k = 2 powi k"
  by (simp add: powr_real_of_int')

lemma floor_log2_bounds:
  assumes "0 < x"
  shows "2 powi \<lfloor>log 2 x\<rfloor> \<le> x" and "x < 2 powi (\<lfloor>log 2 x\<rfloor> + 1)"
proof -
  have "(\<lfloor>log 2 x\<rfloor> = \<lfloor>log 2 x\<rfloor>) =
      (2 powr real_of_int \<lfloor>log 2 x\<rfloor> \<le> x \<and> x < 2 powr real_of_int (\<lfloor>log 2 x\<rfloor> + 1))"
    using assms by (intro floor_log_eq_powr_iff) simp_all
  then have "2 powi \<lfloor>log 2 x\<rfloor> \<le> x \<and> x < 2 powi (\<lfloor>log 2 x\<rfloor> + 1)"
    by (simp only: powr_powi_2 refl simp_thms)
  then show "2 powi \<lfloor>log 2 x\<rfloor> \<le> x" and "x < 2 powi (\<lfloor>log 2 x\<rfloor> + 1)"
    by blast+
qed

lemma floor_log2_eq:
  assumes "2 powi e \<le> x" and "x < 2 powi (e + 1)"
  shows "\<lfloor>log 2 x\<rfloor> = e"
proof -
  have "0 < (2::real) powi e" by simp
  then have x: "0 < x" using assms(1) by linarith
  have "(\<lfloor>log 2 x\<rfloor> = e) =
      (2 powr real_of_int e \<le> x \<and> x < 2 powr real_of_int (e + 1))"
    using x by (intro floor_log_eq_powr_iff) simp_all
  then show ?thesis
    using assms by (simp only: powr_powi_2 simp_thms)
qed

lemma round64_at_exponent:
  assumes "x \<noteq> 0" and "2 powi e \<le> \<bar>x\<bar>" and "\<bar>x\<bar> < 2 powi (e + 1)"
  shows "round64 x =
     (let q = 2 powi (max e (- 1022) - 52);
          y = q * of_int (round_half_even (x / q))
      in if 2 ^ 1024 \<le> \<bar>y\<bar> then (if x < 0 then NegInf else PosInf) else Finite y)"
  unfolding round64_def floor_log2_eq [OF assms(2,3)] Let_def using assms(1) by simp

lemma round64_error:
  assumes lo: "2 powi (- 1022) \<le> \<bar>x\<bar>" and hi: "\<bar>x\<bar> \<le> 2 powi 1023"
  shows "\<exists>y. round64 x = Finite y \<and> \<bar>y - x\<bar> \<le> \<bar>x\<bar> / 2 ^ 53"
proof -
  have "0 < (2::real) powi (- 1022)" by simp
  then have x0: "0 < \<bar>x\<bar>" using lo by linarith
  define e where "e = \<lfloor>log 2 \<bar>x\<bar>\<rfloor>"
  have e1: "2 powi e \<le> \<bar>x\<bar>" and e2: "\<bar>x\<bar> < 2 powi (e + 1)"
    unfolding e_def using floor_log2_bounds [OF x0] by simp_all
  have "(2::real) powi (- 1022) < 2 powi (e + 1)" using lo e2 by linarith
  then have "\<not> e + 1 \<le> - 1022"
    using power_int_increasing [of "e + 1" "- 1022" "2::real"] by auto
  then have m: "max e (- 1022) = e" by simp
  define q :: real where "q = 2 powi (e - 52)"
  have q0: "0 < q" by (simp add: q_def)
  define n where "n = round_half_even (x / q)"
  have "\<bar>of_int n - x / q\<bar> \<le> 1 / 2"
    unfolding n_def by (rule round_half_even_near)
  then have "\<bar>of_int n - x / q\<bar> * q \<le> 1 / 2 * q"
    using q0 by (intro mult_right_mono) simp_all
  then have d: "\<bar>q * of_int n - x\<bar> \<le> q / 2"
    using q0 by (simp add: abs_mult [symmetric] field_simps abs_if split: if_splits)
  have qe: "q = 2 powi e / 2 ^ 52"
    by (simp add: q_def power_int_diff)
  have d2: "q / 2 \<le> \<bar>x\<bar> / 2 ^ 53"
    using e1 by (simp add: qe field_simps)
  have err: "\<bar>q * of_int n - x\<bar> \<le> \<bar>x\<bar> / 2 ^ 53"
    using d d2 by linarith
  have "\<bar>q * of_int n\<bar> \<le> \<bar>x\<bar> + \<bar>x\<bar> / 2 ^ 53"
    using err by linarith
  also have "\<dots> \<le> 2 powi 1023 + 2 powi 1023 / 2 ^ 53"
    using hi by (intro add_mono divide_right_mono) simp_all
  also have "\<dots> < 2 ^ 1024" by simp
  finally have fin: "\<not> 2 ^ 1024 \<le> \<bar>q * of_int n\<bar>" by simp
  have xn: "x \<noteq> 0" using x0 by auto
  have "round64 x = Finite (q * of_int n)"
    unfolding round64_at_exponent [OF xn e1 e2] Let_def m q_def [symmetric] n_def [symmetric]
    using fin by (simp only: if_False)
  then show ?thesis using err by blast
qed


lemma round64_eval:
  assumes "x \<noteq> 0" and "2 powi e \<le> \<bar>x\<bar>" and "\<bar>x\<bar> < 2 powi (e + 1)"
    and "- 1022 \<le> e"
    and "round_half_even (x / 2 powi (e - 52)) = n"
    and "\<bar>(2::real) powi (e - 52) * of_int n\<bar> < 2 ^ 1024"
  shows "round64 x = Finite (2 powi (e - 52) * of_int n)"
proof -
  have m: "max e (- 1022) = e" using assms(4) by simp
  have f: "\<not> 2 ^ 1024 \<le> \<bar>(2::real) powi (e - 52) * of_int n\<bar>"
    using assms(6) by (simp only: not_le)
  show ?thesis
    unfolding round64_at_exponent [OF assms(1,2,3)] Let_def m assms(5)
    using f by (simp only: if_False)
qed

lemma round64_2_3: "round64 (2.3) = Finite (5179139571476070 / 2 ^ 51)"
  using round64_eval [of "2.3" 1 5179139571476070]
  by (simp add: round_half_even_def Let_def)

lemma round64_fixed_2_3: "round64 (5179139571476070 / 2 ^ 51) = Finite (5179139571476070 / 2 ^ 51)"
  using round64_eval [of "5179139571476070 / 2 ^ 51" 1 5179139571476070]
  by (simp add: round_half_even_def Let_def)

lemma round64_time_1000: "round64 (1000 / 820) = Finite (5492194667524995 / 2 ^ 52)"
  using round64_eval [of "1000 / 820" 0 5492194667524995]
  by (simp add: round_half_even_def Let_def)

lemma round64_hundreds_1000: "round64 (1000 / 100) = Finite (5629499534213120 / 2 ^ 49)"
  using round64_eval [of "1000 / 100" 3 5629499534213120]
  by (simp add: round_half_even_def Let_def)

lemma round64_total_1000: "round64 (10 * (5179139571476070 / 2 ^ 51)) = Finite (6473924464345088 / 2 ^ 48)"
  using round64_eval [of "10 * (5179139571476070 / 2 ^ 51)" 4 6473924464345088]
  by (simp add: round_half_even_def Let_def)

lemma round64_per_hour_1000: "round64 ((6473924464345088 / 2 ^ 48) / (5492194667524995 / 2 ^ 52)) = Finite (5308618060762972 / 2 ^ 48)"
  using round64_eval [of "(6473924464345088 / 2 ^ 48) / (5492194667524995 / 2 ^ 52)" 4 5308618060762972]
  by (simp add: round_half_even_def Let_def)

lemma round64_time_5000: "round64 (5000 / 820) = Finite (6865243334406244 / 2 ^ 50)"
  using round64_eval [of "5000 / 820" 2 6865243334406244]
  by (simp add: round_half_even_def Let_def)

lemma round64_hundreds_5000: "round64 (5000 / 100) = Finite (7036874417766400 / 2 ^ 47)"
  using round64_eval [of "5000 / 100" 5 7036874417766400]
  by (simp add: round_half_even_def Let_def)

lemma round64_total_5000: "round64 (50 * (5179139571476070 / 2 ^ 51)) = Finite (8092405580431359 / 2 ^ 46)"
  using round64_eval [of "50 * (5179139571476070 / 2 ^ 51)" 6 8092405580431359]
  by (simp add: round_half_even_def Let_def)

lemma round64_per_hour_5000: "round64 ((8092405580431359 / 2 ^ 46) / (6865243334406244 / 2 ^ 50)) = Finite (5308618060762971 / 2 ^ 48)"
  using round64_eval [of "(8092405580431359 / 2 ^ 46) / (6865243334406244 / 2 ^ 50)" 4 5308618060762971]
  by (simp add: round_half_even_def Let_def)

lemma airbus_profile:
  "dict_get aircraft_profiles (lower ''airbus_a320'') dflt =
     \<lparr>fuel_rate = 2.3, cruise_speed = 820, max_range = 5500, fuel_capacity = 24000\<rparr>"
proof -
  have l: "lower ''airbus_a320'' = ''airbus_a320''"
    by (simp add: lower_def lower_char_def)
  show ?thesis
    unfolding l aircraft_profiles_def dict_get_def by simp
qed

text \<open>
  Claim C9, as the code has it. Claim C9 says that for every distance greater than 0 the
  fuel_per_hour field equals cruise_speed * fuel_rate * wind_factor * payload_factor /
  100, so that two positive distances give the same fuel_per_hour. The code rounds
  total_fuel and flight_time before it divides them, and the distance does not cancel:
  for airbus_a320 with both factors 1.0, the distance 1000 gives 18.86 and the distance
  5000 gives 18.859999999999996, the binary64 number just below it.
\<close>

theorem fuel_per_hour_differs_between_distances:
  "map_sum id fuel_per_hour_f64
     (calculate_fuel_consumption_f64 (Finite 1000) ''airbus_a320'' (Finite 1) (Finite 1)) =
     Inr (Finite (5308618060762972 / 2 ^ 48)) \<and>
   map_sum id fuel_per_hour_f64
     (calculate_fuel_consumption_f64 (Finite 5000) ''airbus_a320'' (Finite 1) (Finite 1)) =
     Inr (Finite (5308618060762971 / 2 ^ 48)) \<and>
   Finite (5308618060762972 / 2 ^ 48) \<noteq> Finite (5308618060762971 / 2 ^ 48)"
proof -
  obtain dflt where g: "getitem aircraft_profiles ''default'' = Inr dflt"
    using getitem_default_profile by blast
  have 1: "map_sum id fuel_per_hour_f64
     (calculate_fuel_consumption_f64 (Finite 1000) ''airbus_a320'' (Finite 1) (Finite 1)) =
     Inr (Finite (5308618060762972 / 2 ^ 48))"
    unfolding calculate_fuel_consumption_f64_def g py_bind.simps Let_def airbus_profile
    using round64_2_3 round64_fixed_2_3 round64_time_1000 round64_hundreds_1000
      round64_total_1000 round64_per_hour_1000
    by (simp add: f64_mul_def f64_div_def f64_lt_def)
  have 2: "map_sum id fuel_per_hour_f64
     (calculate_fuel_consumption_f64 (Finite 5000) ''airbus_a320'' (Finite 1) (Finite 1)) =
     Inr (Finite (5308618060762971 / 2 ^ 48))"
    unfolding calculate_fuel_consumption_f64_def g py_bind.simps Let_def airbus_profile
    using round64_2_3 round64_fixed_2_3 round64_time_5000 round64_hundreds_5000
      round64_total_5000 round64_per_hour_5000
    by (simp add: f64_mul_def f64_div_def f64_lt_def)
  show ?thesis
    using 1 2 by simp
qed

lemma round64_bracket:
  assumes x: "2 powi (- 1000) \<le> x" "x \<le> 2 powi 1000"
    and y: "x * lo \<le> y" "y \<le> x * hi"
    and l: "1 / 2 \<le> lo" and h: "hi \<le> 2"
  shows "\<exists>z. round64 y = Finite z \<and>
     x * (lo * (1 - 1 / 2 ^ 53)) \<le> z \<and> z \<le> x * (hi * (1 + 1 / 2 ^ 53))"
proof -
  have "0 < (2::real) powi (- 1000)" by simp
  then have x0: "0 < x" using x(1) by linarith
  have "x * (1 / 2) \<le> x * lo" using l x0 by (intro mult_left_mono) simp_all
  then have y1: "x / 2 \<le> y" using y(1) by simp
  have "x * hi \<le> x * 2" using h x0 by (intro mult_left_mono) simp_all
  then have y2: "y \<le> 2 * x" using y(2) by simp
  have y0: "0 < y" using y1 x0 by linarith
  have a: "(2::real) powi (- 1022) \<le> 2 powi (- 1000) / 2"
    using power_int_increasing [of "- 1022" "- 1001" "2::real"]
      power_int_diff [of "2::real" "- 1000" 1] by simp
  have b: "2 * (2::real) powi 1000 \<le> 2 powi 1023"
    using power_int_increasing [of "1001" "1023" "2::real"]
      power_int_add [of "2::real" "1000" 1] by simp
  have lo': "2 powi (- 1022) \<le> \<bar>y\<bar>" using a y1 x(1) y0 by linarith
  have hi': "\<bar>y\<bar> \<le> 2 powi 1023" using b y2 x(2) y0 by linarith
  obtain z where z: "round64 y = Finite z" "\<bar>z - y\<bar> \<le> \<bar>y\<bar> / 2 ^ 53"
    using round64_error [OF lo' hi'] by blast
  have z1: "y * (1 - 1 / 2 ^ 53) \<le> z" and z2: "z \<le> y * (1 + 1 / 2 ^ 53)"
    using z(2) y0 by (simp_all add: algebra_simps abs_if split: if_splits)
  have c1: "(x * lo) * (1 - 1 / 2 ^ 53) \<le> y * (1 - 1 / 2 ^ 53)"
    using y(1) by (intro mult_right_mono) simp_all
  have r1: "x * (lo * (1 - 1 / 2 ^ 53)) \<le> z"
    using order_trans [OF c1 z1] by (simp only: mult.assoc)
  have c2: "y * (1 + 1 / 2 ^ 53) \<le> (x * hi) * (1 + 1 / 2 ^ 53)"
    using y(2) by (intro mult_right_mono) simp_all
  have r2: "z \<le> x * (hi * (1 + 1 / 2 ^ 53))"
    using order_trans [OF z2 c2] by (simp only: mult.assoc)
  show ?thesis using z(1) r1 r2 by blast
qed

lemma f64_mul_bracket:
  assumes x: "2 powi (- 1000) \<le> x1 * x2" "x1 * x2 \<le> 2 powi 1000"
    and p: "0 < x1" "0 < x2" "0 < lo1" "0 < lo2"
    and y1: "x1 * lo1 \<le> y1" "y1 \<le> x1 * hi1"
    and y2: "x2 * lo2 \<le> y2" "y2 \<le> x2 * hi2"
    and l: "1 / 2 \<le> lo1 * lo2" and h: "hi1 * hi2 \<le> 2"
  shows "\<exists>z. f64_mul (Finite y1) (Finite y2) = Finite z \<and>
     (x1 * x2) * (lo1 * lo2 * (1 - 1 / 2 ^ 53)) \<le> z \<and>
     z \<le> (x1 * x2) * (hi1 * hi2 * (1 + 1 / 2 ^ 53))"
proof -
  have a1: "0 < x1 * lo1" and a2: "0 < x2 * lo2" using p by simp_all
  have "(x1 * lo1) * (x2 * lo2) \<le> y1 * y2"
    using y1(1) y2(1) a1 a2 by (intro mult_mono) simp_all
  then have b1: "(x1 * x2) * (lo1 * lo2) \<le> y1 * y2" by (simp add: mult_ac)
  have "y1 * y2 \<le> (x1 * hi1) * (x2 * hi2)"
    using y1 y2 a1 a2 by (intro mult_mono) simp_all
  then have b2: "y1 * y2 \<le> (x1 * x2) * (hi1 * hi2)" by (simp add: mult_ac)
  show ?thesis
    using round64_bracket [OF x b1 b2 l h] by (simp add: f64_mul_def)
qed

lemma f64_div_bracket:
  assumes x: "2 powi (- 1000) \<le> x1 / x2" "x1 / x2 \<le> 2 powi 1000"
    and p: "0 < x1" "0 < x2" "0 < lo1" "0 < lo2"
    and y1: "x1 * lo1 \<le> y1" "y1 \<le> x1 * hi1"
    and y2: "x2 * lo2 \<le> y2" "y2 \<le> x2 * hi2"
    and l: "1 / 2 \<le> lo1 / hi2" and h: "hi1 / lo2 \<le> 2"
  shows "\<exists>z. f64_div (Finite y1) (Finite y2) = Inr (Finite z) \<and>
     (x1 / x2) * (lo1 / hi2 * (1 - 1 / 2 ^ 53)) \<le> z \<and>
     z \<le> (x1 / x2) * (hi1 / lo2 * (1 + 1 / 2 ^ 53))"
proof -
  have a1: "0 < x1 * lo1" and a2: "0 < x2 * lo2" using p by simp_all
  have q1: "0 < y1" and q2: "0 < y2" using a1 a2 y1(1) y2(1) by linarith+
  have "(x1 * lo1) / (x2 * hi2) \<le> y1 / y2"
    using y1(1) y2(2) a1 q2 by (intro frac_le) simp_all
  then have b1: "(x1 / x2) * (lo1 / hi2) \<le> y1 / y2" by simp
  have "y1 / y2 \<le> (x1 * hi1) / (x2 * lo2)"
    using y1(2) y2(1) q1 a2 by (intro frac_le) simp_all
  then have b2: "y1 / y2 \<le> (x1 / x2) * (hi1 / lo2)" by simp
  have n: "Finite y2 \<noteq> Finite 0" using q2 by simp
  show ?thesis
    using round64_bracket [OF x b1 b2 l h] n by (simp add: f64_div_def)
qed

lemma range_mult:
  fixes x y :: real
  assumes "2 powi (- a) \<le> x" "x \<le> 2 powi a" "2 powi (- b) \<le> y" "y \<le> 2 powi b"
  shows "2 powi (- (a + b)) \<le> x * y" and "x * y \<le> 2 powi (a + b)"
proof -
  have x0: "0 < x" and y0: "0 < y"
    using assms(1,3) zero_less_power_int [of "2::real" "- a"]
      zero_less_power_int [of "2::real" "- b"] by linarith+
  have "(2::real) powi (- a) * 2 powi (- b) \<le> x * y"
    using assms(1,3) x0 by (intro mult_mono) simp_all
  moreover have "(2::real) powi (- (a + b)) = 2 powi (- a) * 2 powi (- b)"
    using power_int_add [of "2::real" "- a" "- b"] by simp
  ultimately show "2 powi (- (a + b)) \<le> x * y"
    by simp
  have "x * y \<le> 2 powi a * 2 powi b"
    using assms(2,4) x0 y0 by (intro mult_mono) simp_all
  then show "x * y \<le> 2 powi (a + b)"
    by (simp add: power_int_add)
qed

lemma range_div:
  fixes x y :: real
  assumes "2 powi (- a) \<le> x" "x \<le> 2 powi a" "2 powi (- b) \<le> y" "y \<le> 2 powi b"
  shows "2 powi (- (a + b)) \<le> x / y" and "x / y \<le> 2 powi (a + b)"
proof -
  have y0: "0 < y"
    using assms(3) zero_less_power_int [of "2::real" "- b"] by linarith
  have i1: "2 powi (- b) \<le> 1 / y"
    using assms(4) y0 by (simp add: power_int_minus field_simps)
  have i2: "1 / y \<le> 2 powi b"
    using assms(3) y0 by (simp add: power_int_minus field_simps)
  show "2 powi (- (a + b)) \<le> x / y" and "x / y \<le> 2 powi (a + b)"
    using range_mult [OF assms(1,2) i1 i2] by simp_all
qed

lemma range_weaken:
  fixes x :: real
  assumes "2 powi (- a) \<le> x" "x \<le> 2 powi a" "a \<le> 1000"
  shows "2 powi (- 1000) \<le> (x::real)" and "x \<le> 2 powi 1000"
proof -
  have "(2::real) powi (- 1000) \<le> 2 powi (- a)"
    using assms(3) by (intro power_int_increasing) simp_all
  then show "2 powi (- 1000) \<le> x" using assms(1) by linarith
  have "(2::real) powi a \<le> 2 powi 1000"
    using assms(3) by (intro power_int_increasing) simp_all
  then show "x \<le> 2 powi 1000" using assms(2) by linarith
qed

lemma aircraft_profiles_bounds:
  "aircraft_profiles k = Some p \<Longrightarrow>
     2 powi (- 3) \<le> fuel_rate p \<and> fuel_rate p \<le> 2 powi 3 \<and>
     2 powi (- 10) \<le> cruise_speed p \<and> cruise_speed p \<le> 2 powi 10"
  by (auto simp add: aircraft_profiles_def split: if_splits)

lemma dict_get_bounds:
  assumes "aircraft_profiles ''default'' = Some dflt"
  shows "2 powi (- 3) \<le> fuel_rate (dict_get aircraft_profiles k dflt) \<and>
     fuel_rate (dict_get aircraft_profiles k dflt) \<le> 2 powi 3 \<and>
     2 powi (- 10) \<le> cruise_speed (dict_get aircraft_profiles k dflt) \<and>
     cruise_speed (dict_get aircraft_profiles k dflt) \<le> 2 powi 10"
proof (cases "aircraft_profiles k")
  case None
  then show ?thesis
    using aircraft_profiles_bounds [OF assms] by (simp add: dict_get_def)
next
  case (Some p)
  then show ?thesis
    using aircraft_profiles_bounds [of k p] by (simp add: dict_get_def)
qed

text \<open>
  Claim C9, amended. For every distance from 2 to the power -300 to 2 to the power 300
  and wind and payload factors from 2 to the power -100 to 2 to the power 100,
  \<open>calculate_fuel_consumption\<close> returns a finite fuel_per_hour that differs from
  cruise_speed * fuel_rate * wind_factor * payload_factor / 100, for the selected
  profile, by at most that number times 2 to the power -50: it is independent of the
  distance up to the rounding of its seven operations, not bit for bit.
\<close>

theorem fuel_per_hour_rounding_bound:
  assumes d: "2 powi (- 300) \<le> d" "d \<le> 2 powi 300"
    and w: "2 powi (- 100) \<le> w" "w \<le> 2 powi 100"
    and p: "2 powi (- 100) \<le> p" "p \<le> 2 powi 100"
  shows "\<exists>dflt r f. aircraft_profiles ''default'' = Some dflt \<and>
     calculate_fuel_consumption_f64 (Finite d) aircraft_type (Finite w) (Finite p) = Inr r \<and>
     fuel_per_hour_f64 r = Finite f \<and>
     (let profile = (case aircraft_profiles (lower aircraft_type) of
                       None \<Rightarrow> dflt | Some q \<Rightarrow> q);
          exact = cruise_speed profile * fuel_rate profile * w * p / 100
      in \<bar>f - exact\<bar> \<le> exact / 2 ^ 50)"
proof -
  obtain dflt where dflt: "aircraft_profiles ''default'' = Some dflt"
    using aircraft_profiles_default by blast
  have g: "getitem aircraft_profiles ''default'' = Inr dflt"
    by (simp add: getitem_def dflt)
  define P where "P = dict_get aircraft_profiles (lower aircraft_type) dflt"
  have P: "(case aircraft_profiles (lower aircraft_type) of None \<Rightarrow> dflt | Some q \<Rightarrow> q) = P"
    by (simp add: P_def dict_get_def)
  define r0 where "r0 = fuel_rate P"
  define cs where "cs = cruise_speed P"
  have r0: "2 powi (- 3) \<le> r0" "r0 \<le> 2 powi 3"
    and cs: "2 powi (- 10) \<le> cs" "cs \<le> 2 powi 10"
    using dict_get_bounds [OF dflt, of "lower aircraft_type"]
    by (simp_all add: r0_def cs_def P_def)
  have c100: "2 powi (- 7) \<le> (100::real)" "(100::real) \<le> 2 powi 7" by simp_all
  have pos: "0 < d" "0 < w" "0 < p" "0 < r0" "0 < cs"
    using d(1) w(1) p(1) r0(1) cs(1)
      zero_less_power_int [of "2::real" "- 300"] zero_less_power_int [of "2::real" "- 100"]
      zero_less_power_int [of "2::real" "- 3"] zero_less_power_int [of "2::real" "- 10"]
    by linarith+
  define L :: real where "L = 1 - 1 / 2 ^ 53"
  define H :: real where "H = 1 + 1 / 2 ^ 53"
  have L0: "0 < L" by (simp add: L_def)
  \<comment> \<open>the ranges of the exact intermediate values\<close>
  have rw: "2 powi (- (3 + 100)) \<le> r0 * w" "r0 * w \<le> 2 powi (3 + 100)"
    by (rule range_mult [OF r0 w])+
  have rwp: "2 powi (- (3 + 100 + 100)) \<le> r0 * w * p" "r0 * w * p \<le> 2 powi (3 + 100 + 100)"
    by (rule range_mult [OF rw p])+
  have dc: "2 powi (- (300 + 10)) \<le> d / cs" "d / cs \<le> 2 powi (300 + 10)"
    by (rule range_div [OF d cs])+
  have dh: "2 powi (- (300 + 7)) \<le> d / 100" "d / 100 \<le> 2 powi (300 + 7)"
    by (rule range_div [OF d c100])+
  have tt: "2 powi (- (300 + 7 + (3 + 100 + 100))) \<le> d / 100 * (r0 * w * p)"
    "d / 100 * (r0 * w * p) \<le> 2 powi (300 + 7 + (3 + 100 + 100))"
    by (rule range_mult [OF dh rwp])+
  have qq: "2 powi (- (300 + 7 + (3 + 100 + 100) + (300 + 10))) \<le> d / 100 * (r0 * w * p) / (d / cs)"
    "d / 100 * (r0 * w * p) / (d / cs) \<le> 2 powi (300 + 7 + (3 + 100 + 100) + (300 + 10))"
    by (rule range_div [OF tt dc])+
  \<comment> \<open>the seven roundings\<close>
  obtain b where b: "round64 r0 = Finite b" "r0 * (1 * L) \<le> b" "b \<le> r0 * (1 * H)"
    using round64_bracket [OF range_weaken(1,2) [OF r0], of 1 r0 1]
    unfolding L_def H_def by auto
  obtain a1 where a1: "f64_mul (Finite b) (Finite w) = Finite a1"
    "r0 * w * (1 * L * 1 * L) \<le> a1" "a1 \<le> r0 * w * (1 * H * 1 * H)"
    using f64_mul_bracket [OF range_weaken(1,2) [OF rw] pos(4) pos(2) _ _ b(2,3),
        of 1 w 1] L0
    unfolding L_def H_def by auto
  obtain adj where adj: "f64_mul (Finite a1) (Finite p) = Finite adj"
    "r0 * w * p * (1 * L * 1 * L * 1 * L) \<le> adj" "adj \<le> r0 * w * p * (1 * H * 1 * H * 1 * H)"
    using f64_mul_bracket [OF range_weaken(1,2) [OF rwp] _ pos(3) _ _ a1(2,3),
        of 1 p 1] L0 pos
    unfolding L_def H_def by auto
  obtain tm where tm: "f64_div (Finite d) (Finite cs) = Inr (Finite tm)"
    "d / cs * (1 / 1 * L) \<le> tm" "tm \<le> d / cs * (1 / 1 * H)"
    using f64_div_bracket [OF range_weaken(1,2) [OF dc] pos(1) pos(5), of 1 1 d 1 cs 1]
    unfolding L_def H_def by auto
  obtain h where h: "f64_div (Finite d) (Finite 100) = Inr (Finite h)"
    "d / 100 * (1 / 1 * L) \<le> h" "h \<le> d / 100 * (1 / 1 * H)"
    using f64_div_bracket [OF range_weaken(1,2) [OF dh] pos(1), of 1 1 d 1 100 1]
    unfolding L_def H_def by auto
  have hpos: "0 < d / 100" and rwppos: "0 < r0 * w * p" and dcpos: "0 < d / cs"
    using pos by simp_all
  obtain tot where tot: "f64_mul (Finite h) (Finite adj) = Finite tot"
    "d / 100 * (r0 * w * p) * (1 / 1 * L * (1 * L * 1 * L * 1 * L) * L) \<le> tot"
    "tot \<le> d / 100 * (r0 * w * p) * (1 / 1 * H * (1 * H * 1 * H * 1 * H) * H)"
    using f64_mul_bracket [OF range_weaken(1,2) [OF tt] hpos rwppos _ _ h(2,3) adj(2,3)] L0
    unfolding L_def H_def by auto
  have totpos: "0 < d / 100 * (r0 * w * p)" using hpos rwppos by simp
  obtain f where f: "f64_div (Finite tot) (Finite tm) = Inr (Finite f)"
    "d / 100 * (r0 * w * p) / (d / cs) *
       ((1 / 1 * L * (1 * L * 1 * L * 1 * L) * L) / (1 / 1 * H) * L) \<le> f"
    "f \<le> d / 100 * (r0 * w * p) / (d / cs) *
       ((1 / 1 * H * (1 * H * 1 * H * 1 * H) * H) / (1 / 1 * L) * H)"
    using f64_div_bracket [OF range_weaken(1,2) [OF qq] totpos dcpos _ _ tot(2,3) tm(2,3)] L0
    unfolding L_def H_def by auto
  define X where "X = cs * r0 * w * p / 100"
  have X: "d / 100 * (r0 * w * p) / (d / cs) = X"
    using pos by (simp add: X_def field_simps)
  have X0: "0 < X" using pos by (simp add: X_def)
  have lo: "1 - 1 / 2 ^ 50 \<le> (1 / 1 * L * (1 * L * 1 * L * 1 * L) * L) / (1 / 1 * H) * L"
    by (simp add: L_def H_def)
  have hi: "(1 / 1 * H * (1 * H * 1 * H * 1 * H) * H) / (1 / 1 * L) * H \<le> 1 + 1 / 2 ^ 50"
    by (simp add: L_def H_def)
  have "X * (1 - 1 / 2 ^ 50) \<le> f"
    using order_trans [OF mult_left_mono [OF lo, of X] f(2) [unfolded X]] X0 by simp
  moreover have "f \<le> X * (1 + 1 / 2 ^ 50)"
    using order_trans [OF f(3) [unfolded X] mult_left_mono [OF hi, of X]] X0 by simp
  ultimately have bound: "\<bar>f - X\<bar> \<le> X / 2 ^ 50"
    by (simp add: algebra_simps abs_if)
  have tmpos: "0 < tm"
  proof -
    have "0 < d / cs * (1 / 1 * L)" using dcpos L0 by (intro mult_pos_pos) simp_all
    then show ?thesis using tm(2) by linarith
  qed
  have lt: "f64_lt (Finite 0) (Finite tm)" using tmpos by (simp add: f64_lt_def)
  have run: "calculate_fuel_consumption_f64 (Finite d) aircraft_type (Finite w) (Finite p) =
      Inr \<lparr>total_fuel_f64 = Finite tot, fuel_per_100km_f64 = Finite adj,
           fuel_per_hour_f64 = Finite f, flight_time_f64 = Finite tm,
           distance_f64 = Finite d\<rparr>"
    unfolding calculate_fuel_consumption_f64_def g py_bind.simps Let_def
      P_def [symmetric] r0_def [symmetric] cs_def [symmetric]
      b(1) a1(1) adj(1) tm(1) h(1) tot(1)
    using lt f(1) by simp
  have "aircraft_profiles ''default'' = Some dflt \<and>
     calculate_fuel_consumption_f64 (Finite d) aircraft_type (Finite w) (Finite p) =
       Inr \<lparr>total_fuel_f64 = Finite tot, fuel_per_100km_f64 = Finite adj,
            fuel_per_hour_f64 = Finite f, flight_time_f64 = Finite tm,
            distance_f64 = Finite d\<rparr> \<and>
     fuel_per_hour_f64 \<lparr>total_fuel_f64 = Finite tot, fuel_per_100km_f64 = Finite adj,
            fuel_per_hour_f64 = Finite f, flight_time_f64 = Finite tm,
            distance_f64 = Finite d\<rparr> = Finite f \<and>
     (let profile = (case aircraft_profiles (lower aircraft_type) of
                       None \<Rightarrow> dflt | Some q \<Rightarrow> q);
          exact = cruise_speed profile * fuel_rate profile * w * p / 100
      in \<bar>f - exact\<bar> \<le> exact / 2 ^ 50)"
    unfolding Let_def P
    using dflt run bound by (simp add: X_def r0_def cs_def)
  then show ?thesis
    by (intro exI)
qed

theorem fuel_per_hour_rounding_bound_witness:
  "2 powi (- 300) \<le> (1000::real) \<and> (1000::real) \<le> 2 powi 300 \<and>
   2 powi (- 100) \<le> (1::real) \<and> (1::real) \<le> 2 powi 100 \<and>
   (\<exists>r f. calculate_fuel_consumption_f64 (Finite 1000) ''airbus_a320'' (Finite 1) (Finite 1) =
             Inr r \<and>
          fuel_per_hour_f64 r = Finite f \<and>
          \<bar>f - 820 * 2.3 * 1 * 1 / 100\<bar> \<le> (820 * 2.3 * 1 * 1 / 100) / 2 ^ 50)"
proof -
  have d: "2 powi (- 300) \<le> (1000::real)" "(1000::real) \<le> 2 powi 300" by simp_all
  have w: "2 powi (- 100) \<le> (1::real)" "(1::real) \<le> 2 powi 100" by simp_all
  have a: "(case aircraft_profiles (lower ''airbus_a320'') of None \<Rightarrow> dflt | Some q \<Rightarrow> q) =
      \<lparr>fuel_rate = 2.3, cruise_speed = 820, max_range = 5500, fuel_capacity = 24000\<rparr>"
    for dflt
    using airbus_profile [of dflt] by (simp add: dict_get_def)
  obtain dflt r f where
    "calculate_fuel_consumption_f64 (Finite 1000) ''airbus_a320'' (Finite 1) (Finite 1) = Inr r"
    "fuel_per_hour_f64 r = Finite f"
    "\<bar>f - 820 * 2.3 * 1 * 1 / 100\<bar> \<le> (820 * 2.3 * 1 * 1 / 100) / 2 ^ 50"
    and "aircraft_profiles ''default'' = Some dflt"
    using fuel_per_hour_rounding_bound [OF d w w, of "''airbus_a320''"]
    unfolding a Let_def by auto
  then show ?thesis
    using d w by blast
qed

section \<open>Which paths raise\<close>




















end
